theory Spec2Isabelle
  imports Complex_Main "HOL-Library.Log_Nat" "HOL-Library.AList"
begin

section \<open>Binary64 arithmetic as the notebook uses it\<close>

text \<open>
  Every cell of the tables of \<^verbatim>\<open>calculation_template.ipynb\<close> is a numpy
  \<^verbatim>\<open>float64\<close>. A value is a sign and a magnitude (a rational that binary64
  represents; the sign is kept on zero), an infinity with its sign, or NaN.
  \<open>Fin True m\<close> is \<open>- m\<close>.
\<close>

datatype f64 = Fin bool rat | Inf bool | NaN

text \<open>Round half to even on a non-negative rational: what \<^verbatim>\<open>rint\<close> does to a
  magnitude, and what the rounding of a significand does.\<close>

definition rhe :: "rat \<Rightarrow> int" where
  "rhe x = (let f = \<lfloor>x\<rfloor>; d = x - of_int f in
      if d < 1 / 2 then f
      else if 1 / 2 < d then f + 1
      else if even f then f else f + 1)"

text \<open>The binary exponent of a positive magnitude, \<open>\<lfloor>log\<^sub>2 q\<rfloor>\<close>, never below the
  exponent \<open>-1022\<close> of the subnormal numbers.\<close>

definition expo :: "rat \<Rightarrow> int" where
  "expo q = (if 1 \<le> q then bitlen \<lfloor>q\<rfloor> - 1
             else max (- 1022) (- bitlen (\<lceil>1 / q\<rceil> - 1)))"

definition pow2 :: "int \<Rightarrow> rat" where
  "pow2 e = (if 0 \<le> e then 2 ^ nat e else 1 / 2 ^ nat (- e))"

text \<open>Round to nearest, ties to even, with a 53 bit significand: the magnitude is
  rounded to a multiple of its unit in the last place.\<close>

definition rnd :: "rat \<Rightarrow> rat" where
  "rnd q = (let u = pow2 (expo q - 52) in of_int (rhe (q / u)) * u)"

text \<open>The result of an operation whose exact value has sign \<open>s\<close> and magnitude \<open>q\<close>:
  rounded, and infinite when the rounded magnitude leaves the range.\<close>

definition mk :: "bool \<Rightarrow> rat \<Rightarrow> f64" where
  "mk s q = (let r = rnd q in if 2 ^ 1024 \<le> r then Inf s else Fin s r)"

definition val :: "bool \<Rightarrow> rat \<Rightarrow> rat" where
  "val s m = (if s then - m else m)"

fun fneg :: "f64 \<Rightarrow> f64" where
  "fneg (Fin s m) = Fin (\<not> s) m"
| "fneg (Inf s) = Inf (\<not> s)"
| "fneg NaN = NaN"

fun fmul :: "f64 \<Rightarrow> f64 \<Rightarrow> f64" where
  "fmul (Fin s a) (Fin t b) = mk (s \<noteq> t) (a * b)"
| "fmul (Fin s a) (Inf t) = (if a = 0 then NaN else Inf (s \<noteq> t))"
| "fmul (Inf s) (Fin t b) = (if b = 0 then NaN else Inf (s \<noteq> t))"
| "fmul (Inf s) (Inf t) = Inf (s \<noteq> t)"
| "fmul NaN _ = NaN"
| "fmul _ NaN = NaN"

text \<open>Division of arrays in numpy and pandas does not raise on a zero divisor: a
  non-zero value over zero is an infinity, zero over zero is NaN.\<close>

fun fdiv :: "f64 \<Rightarrow> f64 \<Rightarrow> f64" where
  "fdiv (Fin s a) (Fin t b) =
     (if b = 0 then (if a = 0 then NaN else Inf (s \<noteq> t)) else mk (s \<noteq> t) (a / b))"
| "fdiv (Fin s a) (Inf t) = Fin (s \<noteq> t) 0"
| "fdiv (Inf s) (Fin t b) = Inf (s \<noteq> t)"
| "fdiv (Inf s) (Inf t) = NaN"
| "fdiv NaN _ = NaN"
| "fdiv _ NaN = NaN"

fun fadd :: "f64 \<Rightarrow> f64 \<Rightarrow> f64" where
  "fadd (Fin s a) (Fin t b) =
     (let v = val s a + val t b in
      if v = 0 then Fin (s \<and> t) 0 else mk (v < 0) \<bar>v\<bar>)"
| "fadd (Fin s a) (Inf t) = Inf t"
| "fadd (Inf s) (Fin t b) = Inf s"
| "fadd (Inf s) (Inf t) = (if s = t then Inf s else NaN)"
| "fadd NaN _ = NaN"
| "fadd _ NaN = NaN"

definition fsub :: "f64 \<Rightarrow> f64 \<Rightarrow> f64" where
  "fsub x y = fadd x (fneg y)"

fun rint :: "f64 \<Rightarrow> f64" where
  "rint (Fin s a) = Fin s (of_int (rhe a))"
| "rint (Inf s) = Inf s"
| "rint NaN = NaN"

text \<open>The comparison \<^verbatim>\<open>x > y\<close>: false as soon as one side is NaN; the two zeros
  are equal.\<close>

fun fgt :: "f64 \<Rightarrow> f64 \<Rightarrow> bool" where
  "fgt (Fin s a) (Fin t b) = (val t b < val s a)"
| "fgt (Fin s a) (Inf t) = t"
| "fgt (Inf s) (Fin t b) = (\<not> s)"
| "fgt (Inf s) (Inf t) = (\<not> s \<and> t)"
| "fgt NaN _ = False"
| "fgt _ NaN = False"



section \<open>Tables\<close>

text \<open>
  A \<^verbatim>\<open>DataFrame\<close> read by \<^verbatim>\<open>pd.read_csv(..., index_col=0)\<close>: the row labels in
  file order, and the columns in file order, each with its label and its values in
  row order. The requirements table \<^verbatim>\<open>max_reqs\<close> is labelled by state names and the
  beam-power table \<^verbatim>\<open>max_pulse\<close> by bunch charges; both kinds of label are the texts of
  the first column of the file, so that a label of one table can be a label of the other.
  \<^verbatim>\<open>read_csv\<close> makes the column labels of one table pairwise different and all
  columns as long as the index; \<open>well_formed\<close> says so.
\<close>

record 'r frame =
  index :: "'r list"
  columns :: "(string \<times> f64 list) list"

definition well_formed :: "'r frame \<Rightarrow> bool" where
  "well_formed df \<longleftrightarrow>
     distinct (map fst (columns df)) \<and>
     list_all (\<lambda>(c, xs). length xs = length (index df)) (columns df)"

datatype error = IndexError | KeyError string | ValueError

text \<open>\<^verbatim>\<open>state_name = max_reqs.index[0]\<close>\<close>

definition state_name :: "string frame \<Rightarrow> error + string" where
  "state_name max_reqs = (case index max_reqs of [] \<Rightarrow> Inl IndexError | l # _ \<Rightarrow> Inr l)"

text \<open>\<^verbatim>\<open>max_reqs.loc[state_name]\<close> selects by label, not by position: the rows that
  carry the label, all of them.\<close>

definition loc :: "string frame \<Rightarrow> string \<Rightarrow> error + string frame" where
  "loc df name =
     (if name \<in> set (index df)
      then Inr \<lparr>index = filter (\<lambda>l. l = name) (index df),
                columns = map (\<lambda>(c, xs). (c, map snd (filter (\<lambda>(l, v). l = name) (zip (index df) xs))))
                            (columns df)\<rparr>
      else Inl (KeyError name))"

text \<open>Indexing the selection with a column label. When one row carries the label the
  selection is a \<^verbatim>\<open>Series\<close> and the result a scalar; when several do, the selection is a
  \<^verbatim>\<open>DataFrame\<close> and the result a \<^verbatim>\<open>Series\<close> labelled by the repeated state name.\<close>

datatype selection = Scalar f64 | Many "f64 list"

definition getitem :: "string frame \<Rightarrow> string \<Rightarrow> error + selection" where
  "getitem sel col =
     (case map_of (columns sel) col of
        None \<Rightarrow> Inl (KeyError col)
      | Some vs \<Rightarrow> (case vs of [v] \<Rightarrow> Inr (Scalar v) | _ \<Rightarrow> Inr (Many vs)))"

text \<open>\<^verbatim>\<open>df[col]\<close> read and \<^verbatim>\<open>df[col] = values\<close> written (an existing column keeps
  its place, a new one goes last).\<close>

definition column :: "'r frame \<Rightarrow> string \<Rightarrow> error + f64 list" where
  "column df col = (case map_of (columns df) col of None \<Rightarrow> Inl (KeyError col) | Some xs \<Rightarrow> Inr xs)"

definition setitem :: "'r frame \<Rightarrow> string \<Rightarrow> f64 list \<Rightarrow> 'r frame" where
  "setitem df col xs = df\<lparr>columns := AList.update col xs (columns df)\<rparr>"

text \<open>\<^verbatim>\<open>pd.DataFrame(0., index=max_pulse.index, columns=max_pulse.columns)\<close>\<close>

definition zeros :: "'r frame \<Rightarrow> 'r frame" where
  "zeros max_pulse =
     \<lparr>index = index max_pulse,
      columns = map (\<lambda>(c, xs). (c, replicate (length (index max_pulse)) (Fin False 0)))
                  (columns max_pulse)\<rparr>"

text \<open>An operation applied to every cell of a table.\<close>

definition frame_map :: "(f64 \<Rightarrow> f64) \<Rightarrow> 'r frame \<Rightarrow> 'r frame" where
  "frame_map f df = df\<lparr>columns := map (\<lambda>(c, xs). (c, map f xs)) (columns df)\<rparr>"

section \<open>The calculation\<close>

text \<open>The values that the expressions of the first and the second loop take: a number, a \<^verbatim>\<open>Series\<close>
  (its labels and its values), or a \<^verbatim>\<open>Series\<close> whose index is the outer join of two
  different indexes, neither of them empty. The notebook makes such a join only when the
  state name labels several rows, and the join repeats that label; no more is needed of
  it.\<close>

datatype operand = Number f64 | Series "string list" "f64 list" | Joined

text \<open>An arithmetic operation of pandas. A number meets every value of a
  \<^verbatim>\<open>Series\<close>. Two \<^verbatim>\<open>Series\<close> with the same index meet value by value. Otherwise
  they are aligned on the outer join of their indexes: next to an empty \<^verbatim>\<open>Series\<close>
  the other keeps its index and meets NaN in every row.\<close>

fun binop :: "(f64 \<Rightarrow> f64 \<Rightarrow> f64) \<Rightarrow> operand \<Rightarrow> operand \<Rightarrow> operand" where
  "binop f (Number a) (Number b) = Number (f a b)"
| "binop f (Number a) (Series ri rs) = Series ri (map (f a) rs)"
| "binop f (Series li ls) (Number b) = Series li (map (\<lambda>l. f l b) ls)"
| "binop f (Series li ls) (Series ri rs) =
     (if li = ri then Series li (map (\<lambda>(l, r). f l r) (zip ls rs))
      else if ri = [] then Series li (map (\<lambda>l. f l NaN) ls)
      else if li = [] then Series ri (map (\<lambda>r. f NaN r) rs)
      else Joined)"
| "binop f Joined y = Joined"
| "binop f x Joined = Joined"

text \<open>\<^verbatim>\<open>max_reqs.loc[state_name][pulse_energy]\<close> as an operand. The selection of one row
  is a \<^verbatim>\<open>Series\<close> and its item a number; the selection of several rows is a
  \<^verbatim>\<open>DataFrame\<close> and its item a \<^verbatim>\<open>Series\<close> with one value for each of them. In a
  table read from a file every column has one value for each row, so the number of
  values found is the number of rows selected; the two cases in which it is not close
  the definition with \<^verbatim>\<open>ValueError\<close> and are never met by such a table.\<close>

definition item :: "string frame \<Rightarrow> selection \<Rightarrow> error + operand" where
  "item row sel =
     (case sel of
        Scalar m \<Rightarrow> if length (index row) = 1 then Inr (Number m) else Inl ValueError
      | Many ms \<Rightarrow>
          if length ms = length (index row) then Inr (Series (index row) ms)
          else Inl ValueError)"

text \<open>\<^verbatim>\<open>df[col] = value\<close>. A number fills the column. A frame without rows takes the
  index of a \<^verbatim>\<open>Series\<close> that has some, and its other columns are filled with NaN. A
  \<^verbatim>\<open>Series\<close> with the index of the frame is stored as it is. Any other \<^verbatim>\<open>Series\<close>
  is reindexed label by label, which pandas refuses with \<^verbatim>\<open>ValueError\<close> when its index
  repeats a label.\<close>

fun assign :: "string frame \<Rightarrow> string \<Rightarrow> operand \<Rightarrow> error + string frame" where
  "assign df col (Number a) = Inr (setitem df col (map (\<lambda>l. a) (index df)))"
| "assign df col Joined = Inl ValueError"
| "assign df col (Series idx vals) =
     (if index df = [] \<and> idx \<noteq> [] then
        Inr \<lparr>index = idx,
             columns = AList.update col vals
                         (map (\<lambda>(c, ys). (c, map (\<lambda>l. NaN) idx)) (columns df))\<rparr>
      else if idx = index df then Inr (setitem df col vals)
      else if distinct idx then
        Inr (setitem df col
               (map (\<lambda>l. case map_of (zip idx vals) l of None \<Rightarrow> NaN | Some v \<Rightarrow> v)
                    (index df)))
      else Inl ValueError)"

text \<open>The first loop of the notebook,
  \<^verbatim>\<open>min_attenuation[pulse_energy] = max_reqs.loc[state_name][pulse_energy] / (max_pulse[pulse_energy]/1000.)\<close>.
  The left operand is evaluated first, so a column that the requirements lack raises
  \<^verbatim>\<open>KeyError\<close> before anything is stored.\<close>

fun transmission_loop ::
  "string frame \<Rightarrow> string \<Rightarrow> string frame \<Rightarrow> string list \<Rightarrow> string frame \<Rightarrow>
   error + string frame" where
  "transmission_loop max_reqs st max_pulse [] acc = Inr acc"
| "transmission_loop max_reqs st max_pulse (pulse_energy # rest) acc =
     (case loc max_reqs st of Inl e \<Rightarrow> Inl e | Inr row \<Rightarrow>
       (case getitem row pulse_energy of Inl e \<Rightarrow> Inl e | Inr sel \<Rightarrow>
         (case item row sel of Inl e \<Rightarrow> Inl e | Inr allowed \<Rightarrow>
           (case column max_pulse pulse_energy of Inl e \<Rightarrow> Inl e | Inr xs \<Rightarrow>
             (case assign acc pulse_energy
                     (binop fdiv allowed
                        (binop fdiv (Series (index max_pulse) xs) (Number (Fin False 1000)))) of
                Inl e \<Rightarrow> Inl e
              | Inr acc' \<Rightarrow> transmission_loop max_reqs st max_pulse rest acc')))))"

text \<open>\<^verbatim>\<open>min_attenuation[min_attenuation > 1.] = 1.\<close>\<close>

definition clamp :: "f64 \<Rightarrow> f64" where
  "clamp x = (if fgt x (Fin False 1) then Fin False 1 else x)"

text \<open>\<^verbatim>\<open>.round(2)\<close> is numpy's: multiply by \<open>10\<^sup>2\<close>, \<^verbatim>\<open>rint\<close>, divide by \<open>10\<^sup>2\<close>;
  \<^verbatim>\<open>.round(0)\<close> is \<^verbatim>\<open>rint\<close>.\<close>

definition round2 :: "f64 \<Rightarrow> f64" where
  "round2 x = fdiv (rint (fmul x (Fin False 100))) (Fin False 100)"

definition round0 :: "f64 \<Rightarrow> f64" where
  "round0 x = rint x"

definition one_minus :: "f64 \<Rightarrow> f64" where
  "one_minus x = fsub (Fin False 1) x"

definition min_attenuation :: "string frame \<Rightarrow> string \<Rightarrow> string frame \<Rightarrow> error + string frame" where
  "min_attenuation max_reqs st max_pulse =
     (case transmission_loop max_reqs st max_pulse (map fst (columns max_pulse)) (zeros max_pulse) of
        Inl e \<Rightarrow> Inl e
      | Inr t \<Rightarrow> Inr (frame_map one_minus (frame_map round2 (frame_map clamp t))))"

text \<open>The second loop,
  \<^verbatim>\<open>max_pulse_rate[pulse_energy] = (max_reqs.loc[state_name]['Power']/ (max_pulse[pulse_energy]/1000000.) / 1 - min_attenuation[pulse_energy])\<close>,
  where \<^verbatim>\<open>a / (b) / 1 - c\<close> is \<^verbatim>\<open>((a / b) / 1) - c\<close>. For a power that is a number,
  \<open>rate_cell\<close> is what one cell of the column holds.\<close>

definition rate_cell :: "f64 \<Rightarrow> f64 \<Rightarrow> f64 \<Rightarrow> f64" where
  "rate_cell p x a = fsub (fdiv (fdiv p (fdiv x (Fin False 1000000))) (Fin False 1)) a"

fun rate_loop ::
  "string frame \<Rightarrow> string \<Rightarrow> string frame \<Rightarrow> string frame \<Rightarrow> string list \<Rightarrow> string frame \<Rightarrow>
   error + string frame" where
  "rate_loop max_reqs st max_pulse min_att [] acc = Inr acc"
| "rate_loop max_reqs st max_pulse min_att (pulse_energy # rest) acc =
     (case loc max_reqs st of Inl e \<Rightarrow> Inl e | Inr row \<Rightarrow>
       (case getitem row ''Power'' of Inl e \<Rightarrow> Inl e | Inr sel \<Rightarrow>
         (case item row sel of Inl e \<Rightarrow> Inl e | Inr max_power \<Rightarrow>
           (case column max_pulse pulse_energy of Inl e \<Rightarrow> Inl e | Inr xs \<Rightarrow>
             (case column min_att pulse_energy of Inl e \<Rightarrow> Inl e | Inr as \<Rightarrow>
               (case assign acc pulse_energy
                       (binop fsub
                          (binop fdiv
                             (binop fdiv max_power
                                (binop fdiv (Series (index max_pulse) xs)
                                   (Number (Fin False 1000000))))
                             (Number (Fin False 1)))
                          (Series (index min_att) as)) of
                  Inl e \<Rightarrow> Inl e
                | Inr acc' \<Rightarrow> rate_loop max_reqs st max_pulse min_att rest acc'))))))"

definition max_pulse_rate ::
  "string frame \<Rightarrow> string \<Rightarrow> string frame \<Rightarrow> string frame \<Rightarrow> error + string frame" where
  "max_pulse_rate max_reqs st max_pulse min_att =
     (case rate_loop max_reqs st max_pulse min_att (map fst (columns max_pulse)) (zeros max_pulse) of
        Inl e \<Rightarrow> Inl e
      | Inr r \<Rightarrow> Inr (frame_map round0 r))"

text \<open>The cells of the notebook that compute, in their order: the state name, the two
  empty tables, the first loop with the clamp, the rounding and the subtraction, and the
  second loop with its rounding. The cells that display and plot the tables and the
  cell that writes the files are not part of it.\<close>

definition calculate :: "string frame \<Rightarrow> string frame \<Rightarrow> error + (string frame \<times> string frame)" where
  "calculate max_reqs max_pulse =
     (case state_name max_reqs of Inl e \<Rightarrow> Inl e | Inr st \<Rightarrow>
       (case min_attenuation max_reqs st max_pulse of Inl e \<Rightarrow> Inl e | Inr att \<Rightarrow>
         (case max_pulse_rate max_reqs st max_pulse att of Inl e \<Rightarrow> Inl e | Inr rate \<Rightarrow>
            Inr (att, rate))))"

text \<open>\<^verbatim>\<open>max_reqs.loc[state_name][col]\<close>, the lookup that each loop makes.\<close>

definition requirement :: "string frame \<Rightarrow> string \<Rightarrow> error + selection" where
  "requirement max_reqs col =
     (case state_name max_reqs of Inl e \<Rightarrow> Inl e | Inr st \<Rightarrow>
       (case loc max_reqs st of Inl e \<Rightarrow> Inl e | Inr row \<Rightarrow> getitem row col))"

text \<open>The first row of a table: of every column the first value.\<close>

definition first_row :: "'r frame \<Rightarrow> (string \<times> f64 list) list" where
  "first_row df = map (\<lambda>(c, xs). (c, take 1 xs)) (columns df)"

text \<open>The cell that plots the requirements runs before the calculation. It drops the
  column \<^verbatim>\<open>Power\<close> and converts every other column label with \<^verbatim>\<open>float\<close>. Among
  the labels that \<^verbatim>\<open>float\<close> accepts are the decimal numerals: some digits, and after
  them nothing or a point and digits.\<close>

definition digit :: "char \<Rightarrow> bool" where
  "digit c \<longleftrightarrow> c \<in> set ''0123456789''"

definition decimal_label :: "string \<Rightarrow> bool" where
  "decimal_label s \<longleftrightarrow>
     takeWhile digit s \<noteq> [] \<and>
     (case dropWhile digit s of [] \<Rightarrow> True | d # ds \<Rightarrow> d = CHR ''.'' \<and> list_all digit ds)"

section \<open>The cells and the variables of the kernel\<close>

text \<open>The five variables that the cells of the calculation bind, in a kernel in which
  an earlier run has bound them: what they hold when a run starts is whatever that run
  left.\<close>

record kernel =
  var_max_reqs :: "string frame"
  var_max_pulse :: "string frame"
  var_state_name :: string
  var_min_attenuation :: "string frame"
  var_max_pulse_rate :: "string frame"

text \<open>The cell that loads the two files,
  \<^verbatim>\<open>max_reqs = pd.read_csv(req_file, index_col=0)\<close>,
  \<^verbatim>\<open>max_pulse = pd.read_csv('beam.csv', index_col=0)\<close> and
  \<^verbatim>\<open>state_name = max_reqs.index[0]\<close>; the tables that the two files hold are given.\<close>

definition load_cell :: "string frame \<Rightarrow> string frame \<Rightarrow> kernel \<Rightarrow> error + kernel" where
  "load_cell req_file beam_csv k =
     (let k1 = k\<lparr>var_max_reqs := req_file\<rparr>;
          k2 = k1\<lparr>var_max_pulse := beam_csv\<rparr>
      in case state_name (var_max_reqs k2) of
           Inl e \<Rightarrow> Inl e
         | Inr st \<Rightarrow> Inr (k2\<lparr>var_state_name := st\<rparr>))"

text \<open>The cell that creates the empty versions of the two tables.\<close>

definition create_cell :: "kernel \<Rightarrow> kernel" where
  "create_cell k =
     (let k1 = k\<lparr>var_min_attenuation := zeros (var_max_pulse k)\<rparr>
      in k1\<lparr>var_max_pulse_rate := zeros (var_max_pulse k1)\<rparr>)"

text \<open>The cell of the required attenuation: the first loop stores into the table that
  \<^verbatim>\<open>min_attenuation\<close> holds, and the three statements after it rebind the
  variable.\<close>

definition required_attenuation_cell :: "kernel \<Rightarrow> error + kernel" where
  "required_attenuation_cell k =
     (case transmission_loop (var_max_reqs k) (var_state_name k) (var_max_pulse k)
             (map fst (columns (var_max_pulse k))) (var_min_attenuation k) of
        Inl e \<Rightarrow> Inl e
      | Inr t \<Rightarrow>
          Inr (k\<lparr>var_min_attenuation :=
                   frame_map one_minus (frame_map round2 (frame_map clamp t))\<rparr>))"

text \<open>The cell of the maximum repetition rate.\<close>

definition maximum_repetition_rate_cell :: "kernel \<Rightarrow> error + kernel" where
  "maximum_repetition_rate_cell k =
     (case rate_loop (var_max_reqs k) (var_state_name k) (var_max_pulse k)
             (var_min_attenuation k) (map fst (columns (var_max_pulse k)))
             (var_max_pulse_rate k) of
        Inl e \<Rightarrow> Inl e
      | Inr r \<Rightarrow> Inr (k\<lparr>var_max_pulse_rate := frame_map round0 r\<rparr>))"

text \<open>One run of these four cells, in the order of the notebook, in a kernel that
  holds \<open>k\<close>. The cells between them display and plot the tables; they bind none
  of the five variables and are not part of the run described here.\<close>

definition run_cells :: "string frame \<Rightarrow> string frame \<Rightarrow> kernel \<Rightarrow> error + kernel" where
  "run_cells req_file beam_csv k =
     (case load_cell req_file beam_csv k of Inl e \<Rightarrow> Inl e | Inr k1 \<Rightarrow>
       (case required_attenuation_cell (create_cell k1) of Inl e \<Rightarrow> Inl e | Inr k2 \<Rightarrow>
          maximum_repetition_rate_cell k2))"

section \<open>The specification's formulas\<close>

text \<open>Operation 1 in the specification's words: the allowed transmission, clamped so
  that it never exceeds 1.0, rounded to two decimal places, and only then subtracted
  from 1.\<close>

definition spec_min_attenuation :: "f64 \<Rightarrow> f64 \<Rightarrow> f64" where
  "spec_min_attenuation max_pulse_energy_mJ predicted_pulse_energy_uJ =
     (let allowed_transmission =
            fdiv max_pulse_energy_mJ (fdiv predicted_pulse_energy_uJ (Fin False 1000));
          clamped = (if fgt allowed_transmission (Fin False 1) then Fin False 1
                     else allowed_transmission);
          rounded = round2 clamped
      in fsub (Fin False 1) rounded)"

text \<open>Operation 2 in the specification's words: the quotient of the power and the
  pulse energy in joules, over 1, minus the minimum attenuation of the cell, rounded to
  zero decimal places.\<close>

definition spec_max_rep_rate :: "f64 \<Rightarrow> f64 \<Rightarrow> f64 \<Rightarrow> f64" where
  "spec_max_rep_rate max_power_W predicted_pulse_energy_uJ min_att =
     rint (fsub (fdiv (fdiv max_power_W (fdiv predicted_pulse_energy_uJ (Fin False 1000000)))
                      (Fin False 1))
                min_att)"

text \<open>An integer-valued float is finite and equal to its truncation.\<close>

fun is_integer :: "f64 \<Rightarrow> bool" where
  "is_integer (Fin s a) = (of_int \<lfloor>a\<rfloor> = a)"
| "is_integer (Inf s) = False"
| "is_integer NaN = False"

text \<open>The values binary64 has: a finite magnitude is not negative, is its own rounding
  and lies below \<open>2\<^sup>1\<^sup>0\<^sup>2\<^sup>4\<close>.\<close>

fun is_f64 :: "f64 \<Rightarrow> bool" where
  "is_f64 (Fin s a) = (0 \<le> a \<and> rnd a = a \<and> a < 2 ^ 1024)"
| "is_f64 (Inf s) = True"
| "is_f64 NaN = True"



section \<open>Tables: reading and writing columns\<close>

lemma index_setitem: "index (setitem df c v) = index df"
  by (simp add: setitem_def)

lemma map_of_setitem: "map_of (columns (setitem df c v)) = (map_of (columns df))(c \<mapsto> v)"
  by (simp add: setitem_def update_conv')

lemma keys_setitem:
  "c \<in> set (map fst (columns df)) \<Longrightarrow> map fst (columns (setitem df c v)) = map fst (columns df)"
  by (simp add: setitem_def update_keys)

lemma update_entries: "set (AList.update k v al) \<subseteq> insert (k, v) (set al)"
  by (induction al) auto

lemma lengths_setitem:
  "list_all (\<lambda>(c, xs). length xs = n) (columns df) \<Longrightarrow> length v = n \<Longrightarrow>
   list_all (\<lambda>(c, xs). length xs = n) (columns (setitem df c v))"
  using update_entries [of c v "columns df"]
  by (auto simp: setitem_def list_all_iff)

lemma index_frame_map: "index (frame_map f df) = index df"
  by (simp add: frame_map_def)

lemma keys_frame_map: "map fst (columns (frame_map f df)) = map fst (columns df)"
  by (simp add: frame_map_def comp_def case_prod_unfold)

lemma map_of_frame_map:
  "map_of (columns (frame_map f df)) c = map_option (map f) (map_of (columns df) c)"
  by (simp add: frame_map_def map_of_map)

lemma lengths_frame_map:
  "list_all (\<lambda>(c, xs). length xs = n) (columns df) \<Longrightarrow>
   list_all (\<lambda>(c, xs). length xs = n) (columns (frame_map f df))"
  by (auto simp: frame_map_def list_all_iff)

lemma column_frame_map:
  "column (frame_map f df) c = map_sum id (map f) (column df c)"
  by (simp add: column_def map_of_frame_map split: option.splits)

lemma index_zeros: "index (zeros df) = index df"
  by (simp add: zeros_def)

lemma keys_zeros: "map fst (columns (zeros df)) = map fst (columns df)"
  by (simp add: zeros_def comp_def case_prod_unfold)

lemma lengths_zeros: "list_all (\<lambda>(c, xs). length xs = length (index df)) (columns (zeros df))"
  by (auto simp: zeros_def list_all_iff)

lemma column_Inr_key: "column df c = Inr xs \<Longrightarrow> c \<in> set (map fst (columns df))"
  by (auto simp: column_def split: option.splits dest: map_of_SomeD intro: rev_image_eqI)

lemma key_column: "c \<in> set (map fst (columns df)) \<Longrightarrow> \<exists>xs. column df c = Inr xs"
  by (cases "map_of (columns df) c") (auto simp: column_def map_of_eq_None_iff)


section \<open>One step of each loop\<close>

lemma item_single:
  assumes "getitem row c = Inr sel" and "item row sel = Inr v" and "length (index row) = 1"
  shows "\<exists>m. sel = Scalar m \<and> v = Number m"
proof (cases sel)
  case (Scalar m)
  with assms(2,3) show ?thesis by (simp add: item_def)
next
  case (Many ms)
  with assms(2,3) have "length ms = 1" by (simp add: item_def split: if_splits)
  then obtain x where "ms = [x]" by (cases ms) auto
  with assms(1) Many show ?thesis
    by (auto simp: getitem_def split: option.splits list.splits)
qed

lemma item_Series:
  "item row sel = Inr (Series li ms) \<Longrightarrow> li = index row \<and> length ms = length li"
  by (auto simp: item_def split: selection.splits if_splits)

lemma item_not_Joined: "item row sel \<noteq> Inr Joined"
  by (auto simp: item_def split: selection.splits)

text \<open>A \<^verbatim>\<open>Series\<close> found in the requirements repeats the state name. So does its
  join with another index, and that is why pandas refuses to store the join in a frame.\<close>

lemma filter_eq_replicate:
  "filter (\<lambda>l. l = st) xs = replicate (length (filter (\<lambda>l. l = st) xs)) st"
  by (induction xs) auto

lemma loc_labels:
  "loc reqs st = Inr row \<Longrightarrow>
   index row = replicate (length (index row)) st \<and> index row \<noteq> []"
  using filter_eq_replicate [of st "index reqs"]
  by (auto simp: loc_def filter_empty_conv split: if_splits)

lemma item_Series_repeats:
  assumes "loc reqs st = Inr row" and "getitem row c = Inr sel"
      and "item row sel = Inr (Series li ms)"
  shows "\<not> distinct li"
proof -
  from item_Series [OF assms(3)] have li: "li = index row" "length ms = length li" by simp_all
  from assms(3) obtain ms' where "sel = Many ms'" "ms' = ms"
    by (auto simp: item_def split: selection.splits if_splits)
  with assms(2) have "length ms \<noteq> 1"
    by (auto simp: getitem_def split: option.splits list.splits)
  moreover from loc_labels [OF assms(1)] li have "li = replicate (length li) st" "li \<noteq> []" by simp_all
  ultimately obtain n where "li = replicate (Suc (Suc n)) st"
    using li(2) by (cases "length li"; cases "length li - 1") auto
  then show ?thesis by simp
qed

text \<open>One step of the first loop when no frame takes another index: the beam-power
  table has a row, or the state name labels one row.\<close>

lemma transmission_step:
  assumes "getitem row c = Inr sel" and "item row sel = Inr allowed"
      and "index beam \<noteq> [] \<or> length (index row) = 1"
      and "index acc = index beam"
      and "assign acc c (binop fdiv allowed (binop fdiv (Series (index beam) xs) (Number k)))
             = Inr acc'"
  shows "\<exists>vals. acc' = setitem acc c vals \<and>
           (length xs = length (index beam) \<longrightarrow> length vals = length (index beam)) \<and>
           (\<forall>m. sel = Scalar m \<longrightarrow> vals = map (\<lambda>x. fdiv m (fdiv x k)) xs)"
proof (cases allowed)
  case (Number m)
  with assms(2) have "sel = Scalar m"
    by (auto simp: item_def split: selection.splits if_splits)
  with Number assms(4,5) show ?thesis
    by (auto simp: comp_def)
next
  case (Series li ms)
  from item_Series [OF assms(2) [unfolded Series]] have li: "li = index row" "length ms = length li"
    by simp_all
  have many: "\<forall>m. sel \<noteq> Scalar m"
    using assms(2) Series by (auto simp: item_def split: if_splits)
  from assms(3) have ne: "index beam \<noteq> []"
  proof
    assume "length (index row) = 1"
    from item_single [OF assms(1,2) this] Series show ?thesis by simp
  qed
  show ?thesis
  proof (cases "li = index beam")
    case True
    with Series assms(4,5) li many show ?thesis by auto
  next
    case False
    with Series assms(4,5) ne many show ?thesis
      by (auto split: if_splits)
  qed
next
  case Joined
  with assms(2) show ?thesis by (simp add: item_not_Joined)
qed

lemma rate_step:
  assumes "getitem row ''Power'' = Inr sel" and "item row sel = Inr pw"
      and "index beam \<noteq> [] \<or> length (index row) = 1"
      and "index acc = index beam" and "index att = index beam"
      and "assign acc c
             (binop fsub
                (binop fdiv (binop fdiv pw (binop fdiv (Series (index beam) xs) (Number k)))
                   (Number (Fin False 1)))
                (Series (index att) as)) = Inr acc'"
  shows "\<exists>vals. acc' = setitem acc c vals \<and>
           (length xs = length (index beam) \<longrightarrow> length as = length (index beam) \<longrightarrow>
              length vals = length (index beam)) \<and>
           (\<forall>p. sel = Scalar p \<longrightarrow>
              vals = map (\<lambda>(x, a). fsub (fdiv (fdiv p (fdiv x k)) (Fin False 1)) a) (zip xs as))"
proof (cases pw)
  case (Number p)
  with assms(2) have "sel = Scalar p"
    by (auto simp: item_def split: selection.splits if_splits)
  with Number assms(4,5,6) show ?thesis
    by (auto simp: comp_def zip_map1 case_prod_unfold)
next
  case (Series li ps)
  from item_Series [OF assms(2) [unfolded Series]] have li: "li = index row" "length ps = length li"
    by simp_all
  have many: "\<forall>p. sel \<noteq> Scalar p"
    using assms(2) Series by (auto simp: item_def split: if_splits)
  from assms(3) have ne: "index beam \<noteq> []"
  proof
    assume "length (index row) = 1"
    from item_single [OF assms(1,2) this] Series show ?thesis by simp
  qed
  show ?thesis
  proof (cases "li = index beam")
    case True
    with Series assms(4,5,6) li many show ?thesis by auto
  next
    case False
    with Series assms(4,5,6) ne many show ?thesis
      by (auto split: if_splits)
  qed
next
  case Joined
  with assms(2) show ?thesis by (simp add: item_not_Joined)
qed

section \<open>What each loop keeps and stores\<close>

lemma transmission_loop_ConsD:
  assumes "transmission_loop reqs st beam (c # cs) acc = Inr res" and "loc reqs st = Inr row"
  obtains sel allowed xs acc' where
    "getitem row c = Inr sel" and "item row sel = Inr allowed" and "column beam c = Inr xs"
    and "assign acc c (binop fdiv allowed
            (binop fdiv (Series (index beam) xs) (Number (Fin False 1000)))) = Inr acc'"
    and "transmission_loop reqs st beam cs acc' = Inr res"
  using assms by (auto split: sum.splits)

lemma rate_loop_ConsD:
  assumes "rate_loop reqs st beam att (c # cs) acc = Inr res" and "loc reqs st = Inr row"
  obtains sel pw xs as acc' where
    "getitem row ''Power'' = Inr sel" and "item row sel = Inr pw"
    and "column beam c = Inr xs" and "column att c = Inr as"
    and "assign acc c
           (binop fsub
              (binop fdiv
                 (binop fdiv pw (binop fdiv (Series (index beam) xs) (Number (Fin False 1000000))))
                 (Number (Fin False 1)))
              (Series (index att) as)) = Inr acc'"
    and "rate_loop reqs st beam att cs acc' = Inr res"
  using assms by (auto split: sum.splits)

lemma column_entry: "column df c = Inr xs \<Longrightarrow> (c, xs) \<in> set (columns df)"
  by (auto simp: column_def split: option.splits dest: map_of_SomeD)

text \<open>What the first loop keeps when no frame takes another index.\<close>

lemma transmission_loop_frame:
  assumes "loc reqs st = Inr row" and "index beam \<noteq> [] \<or> length (index row) = 1"
  shows "transmission_loop reqs st beam cs acc = Inr res \<Longrightarrow> index acc = index beam \<Longrightarrow>
         index res = index beam \<and>
         (set cs \<subseteq> set (map fst (columns acc)) \<longrightarrow>
            map fst (columns res) = map fst (columns acc)) \<and>
         (list_all (\<lambda>(c, xs). length xs = length (index beam)) (columns beam) \<longrightarrow>
          list_all (\<lambda>(c, xs). length xs = length (index beam)) (columns acc) \<longrightarrow>
          list_all (\<lambda>(c, xs). length xs = length (index beam)) (columns res))"
proof (induction cs arbitrary: acc)
  case Nil
  then show ?case by simp
next
  case (Cons c cs)
  from Cons.prems(1) assms(1) obtain sel allowed xs acc' where
    s: "getitem row c = Inr sel" "item row sel = Inr allowed" "column beam c = Inr xs"
    and a: "assign acc c (binop fdiv allowed
            (binop fdiv (Series (index beam) xs) (Number (Fin False 1000)))) = Inr acc'"
    and l: "transmission_loop reqs st beam cs acc' = Inr res"
    by (rule transmission_loop_ConsD)
  from transmission_step [OF s(1,2) assms(2) Cons.prems(2) a] obtain vals where
    acc': "acc' = setitem acc c vals" and
    len: "length xs = length (index beam) \<longrightarrow> length vals = length (index beam)"
    by blast
  have i: "index acc' = index beam" using Cons.prems(2) by (simp add: acc' index_setitem)
  note IH = Cons.IH [OF l i]
  have k: "c \<in> set (map fst (columns acc)) \<Longrightarrow>
      map fst (columns acc') = map fst (columns acc)"
    unfolding acc' by (rule keys_setitem)
  have n: "list_all (\<lambda>(c, xs). length xs = length (index beam)) (columns beam) \<Longrightarrow>
      list_all (\<lambda>(c, xs). length xs = length (index beam)) (columns acc) \<Longrightarrow>
      list_all (\<lambda>(c, xs). length xs = length (index beam)) (columns acc')"
  proof -
    assume b: "list_all (\<lambda>(c, xs). length xs = length (index beam)) (columns beam)"
      and c: "list_all (\<lambda>(c, xs). length xs = length (index beam)) (columns acc)"
    from column_entry [OF s(3)] b have "length xs = length (index beam)"
      by (auto simp: list_all_iff)
    with len have "length vals = length (index beam)" by simp
    with c show ?thesis unfolding acc' by (intro lengths_setitem)
  qed
  show ?case
  proof (intro conjI impI)
    show "index res = index beam" using IH by simp
  next
    assume sub: "set (c # cs) \<subseteq> set (map fst (columns acc))"
    then have "c \<in> set (map fst (columns acc))" by simp
    from k [OF this] have e: "map fst (columns acc') = map fst (columns acc)" .
    with sub have "set cs \<subseteq> set (map fst (columns acc'))" by simp
    with IH have "map fst (columns res) = map fst (columns acc')" by simp
    with e show "map fst (columns res) = map fst (columns acc)" by simp
  next
    assume "list_all (\<lambda>(c, xs). length xs = length (index beam)) (columns beam)"
      and "list_all (\<lambda>(c, xs). length xs = length (index beam)) (columns acc)"
    with n IH show "list_all (\<lambda>(c, xs). length xs = length (index beam)) (columns res)"
      by simp
  qed
qed

lemma transmission_loop_cell:
  assumes "loc reqs st = Inr row" and "index beam \<noteq> [] \<or> length (index row) = 1"
  shows "transmission_loop reqs st beam cs acc = Inr res \<Longrightarrow> index acc = index beam \<Longrightarrow>
         c \<in> set cs \<Longrightarrow> getitem row c = Inr (Scalar m) \<Longrightarrow>
         \<exists>xs. column beam c = Inr xs \<and>
           map_of (columns res) c = Some (map (\<lambda>x. fdiv m (fdiv x (Fin False 1000))) xs)"
  and transmission_loop_other:
  "transmission_loop reqs st beam cs acc = Inr res \<Longrightarrow> index acc = index beam \<Longrightarrow>
    c \<notin> set cs \<Longrightarrow> map_of (columns res) c = map_of (columns acc) c"
proof (induction cs arbitrary: acc)
  case Nil
  { case 1 then show ?case by simp }
  { case 2 then show ?case by simp }
next
  case (Cons c' cs)
  { case 1
    from 1(1) assms(1) obtain sel allowed xs acc' where
      s: "getitem row c' = Inr sel" "item row sel = Inr allowed" "column beam c' = Inr xs"
      and a: "assign acc c' (binop fdiv allowed
              (binop fdiv (Series (index beam) xs) (Number (Fin False 1000)))) = Inr acc'"
      and l: "transmission_loop reqs st beam cs acc' = Inr res"
      by (rule transmission_loop_ConsD)
    from transmission_step [OF s(1,2) assms(2) 1(2) a] obtain vals where
      acc': "acc' = setitem acc c' vals" and
      v: "\<forall>m. sel = Scalar m \<longrightarrow> vals = map (\<lambda>x. fdiv m (fdiv x (Fin False 1000))) xs"
      by blast
    have i: "index acc' = index beam" using 1(2) by (simp add: acc' index_setitem)
    show ?case
    proof (cases "c \<in> set cs")
      case True
      from Cons.IH(1) [OF l i True 1(4)] show ?thesis .
    next
      case False
      with 1(3) have eq: "c = c'" by simp
      with s(1) 1(4) have "sel = Scalar m" by simp
      with v have "vals = map (\<lambda>x. fdiv m (fdiv x (Fin False 1000))) xs" by simp
      with Cons.IH(2) [OF l i False] eq s(3) show ?thesis
        by (simp add: acc' map_of_setitem)
    qed }
  { case 2
    from 2(1) assms(1) obtain sel allowed xs acc' where
      s: "getitem row c' = Inr sel" "item row sel = Inr allowed"
      and a: "assign acc c' (binop fdiv allowed
              (binop fdiv (Series (index beam) xs) (Number (Fin False 1000)))) = Inr acc'"
      and l: "transmission_loop reqs st beam cs acc' = Inr res"
      by (rule transmission_loop_ConsD)
    from transmission_step [OF s(1,2) assms(2) 2(2) a] obtain vals where
      acc': "acc' = setitem acc c' vals" by blast
    have i: "index acc' = index beam" using 2(2) by (simp add: acc' index_setitem)
    from 2(3) have "c \<notin> set cs" "c \<noteq> c'" by auto
    with Cons.IH(2) [OF l i] show ?case by (simp add: acc' map_of_setitem) }
qed

lemma rate_loop_frame:
  assumes "loc reqs st = Inr row" and "index beam \<noteq> [] \<or> length (index row) = 1"
      and "index att = index beam"
  shows "rate_loop reqs st beam att cs acc = Inr res \<Longrightarrow> index acc = index beam \<Longrightarrow>
         index res = index beam \<and>
         (set cs \<subseteq> set (map fst (columns acc)) \<longrightarrow>
            map fst (columns res) = map fst (columns acc)) \<and>
         (list_all (\<lambda>(c, xs). length xs = length (index beam)) (columns beam) \<longrightarrow>
          list_all (\<lambda>(c, xs). length xs = length (index beam)) (columns att) \<longrightarrow>
          list_all (\<lambda>(c, xs). length xs = length (index beam)) (columns acc) \<longrightarrow>
          list_all (\<lambda>(c, xs). length xs = length (index beam)) (columns res))"
proof (induction cs arbitrary: acc)
  case Nil
  then show ?case by simp
next
  case (Cons c cs)
  from Cons.prems(1) assms(1) obtain sel pw xs as acc' where
    s: "getitem row ''Power'' = Inr sel" "item row sel = Inr pw"
       "column beam c = Inr xs" "column att c = Inr as"
    and a: "assign acc c
           (binop fsub
              (binop fdiv
                 (binop fdiv pw (binop fdiv (Series (index beam) xs) (Number (Fin False 1000000))))
                 (Number (Fin False 1)))
              (Series (index att) as)) = Inr acc'"
    and l: "rate_loop reqs st beam att cs acc' = Inr res"
    by (rule rate_loop_ConsD)
  from rate_step [OF s(1,2) assms(2) Cons.prems(2) assms(3) a] obtain vals where
    acc': "acc' = setitem acc c vals" and
    len: "length xs = length (index beam) \<longrightarrow> length as = length (index beam) \<longrightarrow>
            length vals = length (index beam)"
    by blast
  have i: "index acc' = index beam" using Cons.prems(2) by (simp add: acc' index_setitem)
  note IH = Cons.IH [OF l i]
  have k: "c \<in> set (map fst (columns acc)) \<Longrightarrow>
      map fst (columns acc') = map fst (columns acc)"
    unfolding acc' by (rule keys_setitem)
  have n: "list_all (\<lambda>(c, xs). length xs = length (index beam)) (columns beam) \<Longrightarrow>
      list_all (\<lambda>(c, xs). length xs = length (index beam)) (columns att) \<Longrightarrow>
      list_all (\<lambda>(c, xs). length xs = length (index beam)) (columns acc) \<Longrightarrow>
      list_all (\<lambda>(c, xs). length xs = length (index beam)) (columns acc')"
  proof -
    assume b: "list_all (\<lambda>(c, xs). length xs = length (index beam)) (columns beam)"
      and t: "list_all (\<lambda>(c, xs). length xs = length (index beam)) (columns att)"
      and c: "list_all (\<lambda>(c, xs). length xs = length (index beam)) (columns acc)"
    from column_entry [OF s(3)] b have "length xs = length (index beam)"
      by (auto simp: list_all_iff)
    moreover from column_entry [OF s(4)] t have "length as = length (index beam)"
      by (auto simp: list_all_iff)
    ultimately have "length vals = length (index beam)" using len by simp
    with c show ?thesis unfolding acc' by (intro lengths_setitem)
  qed
  show ?case
  proof (intro conjI impI)
    show "index res = index beam" using IH by simp
  next
    assume sub: "set (c # cs) \<subseteq> set (map fst (columns acc))"
    then have "c \<in> set (map fst (columns acc))" by simp
    from k [OF this] have e: "map fst (columns acc') = map fst (columns acc)" .
    with sub have "set cs \<subseteq> set (map fst (columns acc'))" by simp
    with IH have "map fst (columns res) = map fst (columns acc')" by simp
    with e show "map fst (columns res) = map fst (columns acc)" by simp
  next
    assume "list_all (\<lambda>(c, xs). length xs = length (index beam)) (columns beam)"
      and "list_all (\<lambda>(c, xs). length xs = length (index beam)) (columns att)"
      and "list_all (\<lambda>(c, xs). length xs = length (index beam)) (columns acc)"
    with n IH show "list_all (\<lambda>(c, xs). length xs = length (index beam)) (columns res)"
      by simp
  qed
qed

lemma rate_loop_cell:
  assumes "loc reqs st = Inr row" and "index beam \<noteq> [] \<or> length (index row) = 1"
      and "index att = index beam"
  shows "rate_loop reqs st beam att cs acc = Inr res \<Longrightarrow> index acc = index beam \<Longrightarrow>
         c \<in> set cs \<Longrightarrow> getitem row ''Power'' = Inr (Scalar p) \<Longrightarrow>
         \<exists>xs as. column beam c = Inr xs \<and> column att c = Inr as \<and>
           map_of (columns res) c = Some (map (\<lambda>(x, a). rate_cell p x a) (zip xs as))"
  and rate_loop_other:
  "rate_loop reqs st beam att cs acc = Inr res \<Longrightarrow> index acc = index beam \<Longrightarrow>
    c \<notin> set cs \<Longrightarrow> map_of (columns res) c = map_of (columns acc) c"
proof (induction cs arbitrary: acc)
  case Nil
  { case 1 then show ?case by simp }
  { case 2 then show ?case by simp }
next
  case (Cons c' cs)
  { case 1
    from 1(1) assms(1) obtain sel pw xs as acc' where
      s: "getitem row ''Power'' = Inr sel" "item row sel = Inr pw"
         "column beam c' = Inr xs" "column att c' = Inr as"
      and a: "assign acc c'
           (binop fsub
              (binop fdiv
                 (binop fdiv pw (binop fdiv (Series (index beam) xs) (Number (Fin False 1000000))))
                 (Number (Fin False 1)))
              (Series (index att) as)) = Inr acc'"
      and l: "rate_loop reqs st beam att cs acc' = Inr res"
      by (rule rate_loop_ConsD)
    from rate_step [OF s(1,2) assms(2) 1(2) assms(3) a] obtain vals where
      acc': "acc' = setitem acc c' vals" and
      v: "\<forall>p. sel = Scalar p \<longrightarrow>
            vals = map (\<lambda>(x, a). fsub (fdiv (fdiv p (fdiv x (Fin False 1000000))) (Fin False 1)) a)
                     (zip xs as)"
      by blast
    have i: "index acc' = index beam" using 1(2) by (simp add: acc' index_setitem)
    show ?case
    proof (cases "c \<in> set cs")
      case True
      from Cons.IH(1) [OF l i True 1(4)] show ?thesis .
    next
      case False
      with 1(3) have eq: "c = c'" by simp
      from s(1) 1(4) have "sel = Scalar p" by simp
      with v have "vals = map (\<lambda>(x, a). rate_cell p x a) (zip xs as)"
        by (simp add: rate_cell_def)
      with Cons.IH(2) [OF l i False] eq s(3,4) show ?thesis
        by (simp add: acc' map_of_setitem)
    qed }
  { case 2
    from 2(1) assms(1) obtain sel pw xs as acc' where
      s: "getitem row ''Power'' = Inr sel" "item row sel = Inr pw"
      and a: "assign acc c'
           (binop fsub
              (binop fdiv
                 (binop fdiv pw (binop fdiv (Series (index beam) xs) (Number (Fin False 1000000))))
                 (Number (Fin False 1)))
              (Series (index att) as)) = Inr acc'"
      and l: "rate_loop reqs st beam att cs acc' = Inr res"
      by (rule rate_loop_ConsD)
    from rate_step [OF s(1,2) assms(2) 2(2) assms(3) a] obtain vals where
      acc': "acc' = setitem acc c' vals" by blast
    have i: "index acc' = index beam" using 2(2) by (simp add: acc' index_setitem)
    from 2(3) have "c \<notin> set cs" "c \<noteq> c'" by auto
    with Cons.IH(2) [OF l i] show ?case by (simp add: acc' map_of_setitem) }
qed

section \<open>Runs that return\<close>

lemma calculate_InrD:
  "calculate reqs beam = Inr (att, rate) \<Longrightarrow>
   \<exists>st t r. state_name reqs = Inr st \<and>
     transmission_loop reqs st beam (map fst (columns beam)) (zeros beam) = Inr t \<and>
     att = frame_map one_minus (frame_map round2 (frame_map clamp t)) \<and>
     rate_loop reqs st beam att (map fst (columns beam)) (zeros beam) = Inr r \<and>
     rate = frame_map round0 r"
  by (auto simp: calculate_def min_attenuation_def max_pulse_rate_def split: sum.splits)

lemma loc_state_name:
  "state_name reqs = Inr st \<Longrightarrow> \<exists>row. loc reqs st = Inr row"
  by (auto simp: state_name_def loc_def split: list.splits)

lemma filter_zip_unique:
  "st \<notin> set rest \<Longrightarrow>
   map snd (filter (\<lambda>(l, v). l = st) (zip (st # rest) xs)) = take 1 xs"
proof (cases xs)
  case Nil
  then show ?thesis by simp
next
  case (Cons x xs')
  assume "st \<notin> set rest"
  then have "filter (\<lambda>(l, v). l = st) (zip rest xs') = []"
    by (auto simp: filter_empty_conv dest: set_zip_leftD)
  with Cons show ?thesis by simp
qed

lemma loc_unique:
  assumes "index reqs = st # rest" and "st \<notin> set rest"
  shows "loc reqs st = Inr \<lparr>index = [st], columns = first_row reqs\<rparr>"
proof -
  from assms(2) have "filter (\<lambda>l. l = st) rest = []"
    by (auto simp: filter_empty_conv)
  with assms show ?thesis
    by (simp add: loc_def first_row_def filter_zip_unique)
qed


lemma state_name_unique: "index reqs = st # rest \<Longrightarrow> state_name reqs = Inr st"
  by (simp add: state_name_def)

text \<open>The shape of the two tables of a run in which no frame takes another index.\<close>

lemma calculate_shape:
  assumes "calculate reqs beam = Inr (att, rate)"
      and "state_name reqs = Inr st" and "loc reqs st = Inr row"
      and "index beam \<noteq> [] \<or> length (index row) = 1"
  shows "index att = index beam" and "index rate = index beam"
    and "map fst (columns att) = map fst (columns beam)"
    and "map fst (columns rate) = map fst (columns beam)"
    and "well_formed beam \<Longrightarrow> well_formed att \<and> well_formed rate"
proof -
  from calculate_InrD [OF assms(1)] assms(2) obtain t r where
    t: "transmission_loop reqs st beam (map fst (columns beam)) (zeros beam) = Inr t" and
    att: "att = frame_map one_minus (frame_map round2 (frame_map clamp t))" and
    r: "rate_loop reqs st beam att (map fst (columns beam)) (zeros beam) = Inr r" and
    rate: "rate = frame_map round0 r"
    by auto
  let ?n = "length (index beam)"
  note T = transmission_loop_frame [OF assms(3,4) t index_zeros]
  from T show ia: "index att = index beam"
    by (simp add: att index_frame_map)
  note R = rate_loop_frame [OF assms(3,4) ia r index_zeros]
  from R show "index rate = index beam"
    by (simp add: rate index_frame_map)
  from T show ka: "map fst (columns att) = map fst (columns beam)"
    by (simp add: att keys_frame_map keys_zeros)
  from R show kr: "map fst (columns rate) = map fst (columns beam)"
    by (simp add: rate keys_frame_map keys_zeros)
  show "well_formed att \<and> well_formed rate" if "well_formed beam"
  proof -
    from that have lb: "list_all (\<lambda>(c, xs). length xs = ?n) (columns beam)"
      and db: "distinct (map fst (columns beam))"
      by (simp_all add: well_formed_def)
    from T lb lengths_zeros [of beam]
    have "list_all (\<lambda>(c, xs). length xs = ?n) (columns t)" by simp
    then have la: "list_all (\<lambda>(c, xs). length xs = ?n) (columns att)"
      unfolding att by (intro lengths_frame_map)
    from R lb la lengths_zeros [of beam]
    have "list_all (\<lambda>(c, xs). length xs = ?n) (columns r)" by simp
    then have lr: "list_all (\<lambda>(c, xs). length xs = ?n) (columns rate)"
      unfolding rate by (intro lengths_frame_map)
    from ia ka la db \<open>index rate = index beam\<close> kr lr show ?thesis
      by (simp add: well_formed_def)
  qed
qed

text \<open>Every column of a run that returns was found in the rows of the state name.\<close>

lemma transmission_loop_getitem:
  "transmission_loop reqs st beam cs acc = Inr res \<Longrightarrow> c \<in> set cs \<Longrightarrow>
   loc reqs st = Inr row \<Longrightarrow> \<exists>sel v. getitem row c = Inr sel \<and> item row sel = Inr v"
  by (induction cs arbitrary: acc) (auto split: sum.splits)

lemma rate_loop_getitem:
  "rate_loop reqs st beam att cs acc = Inr res \<Longrightarrow> cs \<noteq> [] \<Longrightarrow>
   loc reqs st = Inr row \<Longrightarrow> \<exists>sel v. getitem row ''Power'' = Inr sel \<and> item row sel = Inr v"
  by (cases cs) (auto split: sum.splits)

text \<open>The cells of a run for a state name that labels one row.\<close>

lemma calculate_cells:
  assumes "calculate reqs beam = Inr (att, rate)" and "column beam c = Inr xs"
      and "state_name reqs = Inr st" and "loc reqs st = Inr row"
      and "length (index row) = 1"
  shows "\<exists>m p. getitem row c = Inr (Scalar m) \<and> getitem row ''Power'' = Inr (Scalar p) \<and>
           column att c =
             Inr (map (\<lambda>x. one_minus (round2 (clamp (fdiv m (fdiv x (Fin False 1000)))))) xs) \<and>
           column rate c =
             Inr (map (\<lambda>(x, a). round0 (rate_cell p x a))
                   (zip xs (map (\<lambda>x. one_minus (round2 (clamp (fdiv m (fdiv x (Fin False 1000)))))) xs)))"
proof -
  from calculate_InrD [OF assms(1)] assms(3) obtain t r where
    t: "transmission_loop reqs st beam (map fst (columns beam)) (zeros beam) = Inr t" and
    att: "att = frame_map one_minus (frame_map round2 (frame_map clamp t))" and
    r: "rate_loop reqs st beam att (map fst (columns beam)) (zeros beam) = Inr r" and
    rate: "rate = frame_map round0 r"
    by auto
  have reg: "index beam \<noteq> [] \<or> length (index row) = 1" using assms(5) by simp
  from assms(2) have c: "c \<in> set (map fst (columns beam))" by (rule column_Inr_key)
  from transmission_loop_getitem [OF t c assms(4)] obtain sel v where
    sv: "getitem row c = Inr sel" "item row sel = Inr v" by blast
  from item_single [OF sv assms(5)] sv(1) obtain m where m: "getitem row c = Inr (Scalar m)"
    by auto
  from transmission_loop_cell(1) [OF assms(4) reg t index_zeros c m] assms(2)
  have tc: "map_of (columns t) c = Some (map (\<lambda>x. fdiv m (fdiv x (Fin False 1000))) xs)"
    by auto
  then have attc: "column att c =
      Inr (map (\<lambda>x. one_minus (round2 (clamp (fdiv m (fdiv x (Fin False 1000)))))) xs)"
    by (simp add: att column_def map_of_frame_map comp_def)
  from transmission_loop_frame [OF assms(4) reg t index_zeros]
  have ia: "index att = index beam" by (simp add: att index_frame_map)
  from c have ne: "map fst (columns beam) \<noteq> []" by auto
  from rate_loop_getitem [OF r ne assms(4)] obtain sel' v' where
    sv': "getitem row ''Power'' = Inr sel'" "item row sel' = Inr v'" by blast
  from item_single [OF sv' assms(5)] sv'(1) obtain p where
    p: "getitem row ''Power'' = Inr (Scalar p)"
    by auto
  from rate_loop_cell(1) [OF assms(4) reg ia r index_zeros c p] assms(2) attc
  have "map_of (columns r) c =
      Some (map (\<lambda>(x, a). rate_cell p x a)
        (zip xs (map (\<lambda>x. one_minus (round2 (clamp (fdiv m (fdiv x (Fin False 1000)))))) xs)))"
    by auto
  then have "column rate c =
      Inr (map (\<lambda>(x, a). round0 (rate_cell p x a))
        (zip xs (map (\<lambda>x. one_minus (round2 (clamp (fdiv m (fdiv x (Fin False 1000)))))) xs)))"
    by (simp add: rate column_def map_of_frame_map comp_def case_prod_unfold)
  with m p attc show ?thesis by blast
qed


section \<open>Only the rows that carry the state name are read\<close>

lemma transmission_loop_cong:
  "loc r1 st = loc r2 st \<Longrightarrow>
   transmission_loop r1 st beam cs acc = transmission_loop r2 st beam cs acc"
  by (induction cs arbitrary: acc) (simp_all split: sum.splits)

lemma rate_loop_cong:
  "loc r1 st = loc r2 st \<Longrightarrow>
   rate_loop r1 st beam att cs acc = rate_loop r2 st beam att cs acc"
  by (induction cs arbitrary: acc) (simp_all split: sum.splits)

lemma calculate_cong:
  assumes "state_name r1 = state_name r2"
      and "\<And>st. state_name r1 = Inr st \<Longrightarrow> loc r1 st = loc r2 st"
  shows "calculate r1 beam = calculate r2 beam"
proof (cases "state_name r1")
  case (Inl e)
  moreover from Inl assms(1) have "state_name r2 = Inl e" by simp
  ultimately show ?thesis by (simp add: calculate_def)
next
  case (Inr st)
  from assms(2) [OF Inr] have l: "loc r1 st = loc r2 st" .
  have a: "min_attenuation r1 st beam = min_attenuation r2 st beam"
    by (simp add: min_attenuation_def transmission_loop_cong [OF l])
  have r: "max_pulse_rate r1 st beam att = max_pulse_rate r2 st beam att" for att
    by (simp add: max_pulse_rate_def rate_loop_cong [OF l])
  from Inr assms(1) have "state_name r2 = Inr st" by simp
  with Inr show ?thesis
    by (simp add: calculate_def a r cong: sum.case_cong)
qed

section \<open>Runs that return and runs that raise\<close>

lemma keys_first_row: "map fst (first_row df) = map fst (columns df)"
  by (simp add: first_row_def comp_def case_prod_unfold)

lemma getitem_missing:
  "c \<notin> set (map fst (columns row)) \<Longrightarrow> getitem row c = Inl (KeyError c)"
proof -
  assume "c \<notin> set (map fst (columns row))"
  then have "map_of (columns row) c = None"
    by (simp add: map_of_eq_None_iff)
  then show ?thesis by (simp add: getitem_def)
qed

lemma getitem_first_row:
  assumes "index reqs = st # rest" and "well_formed reqs"
      and "c \<in> set (map fst (columns reqs))"
  shows "\<exists>m. getitem \<lparr>index = [st], columns = first_row reqs\<rparr> c = Inr (Scalar m)"
proof -
  from assms(3) obtain xs where xs: "map_of (columns reqs) c = Some xs"
    by (cases "map_of (columns reqs) c") (auto simp: map_of_eq_None_iff)
  then have "(c, xs) \<in> set (columns reqs)" by (rule map_of_SomeD)
  with assms(1,2) have "length xs = Suc (length rest)"
    by (auto simp: well_formed_def list_all_iff)
  then obtain x xs' where "xs = x # xs'" by (cases xs) auto
  with xs show ?thesis
    by (simp add: getitem_def first_row_def map_of_map)
qed

text \<open>One step of each loop for a requirement that is a number.\<close>

lemma transmission_assign:
  "index acc = index beam \<Longrightarrow>
   assign acc c (binop fdiv (Number m) (binop fdiv (Series (index beam) xs) (Number k)))
     = Inr (setitem acc c (map (\<lambda>x. fdiv m (fdiv x k)) xs))"
  by (simp add: comp_def)

lemma rate_assign:
  "index acc = index beam \<Longrightarrow> index att = index beam \<Longrightarrow>
   assign acc c
     (binop fsub
        (binop fdiv (binop fdiv (Number p) (binop fdiv (Series (index beam) xs) (Number k)))
           (Number (Fin False 1)))
        (Series (index att) as))
     = Inr (setitem acc c
         (map (\<lambda>(x, a). fsub (fdiv (fdiv p (fdiv x k)) (Fin False 1)) a) (zip xs as)))"
  by (simp add: comp_def zip_map1 case_prod_unfold)

lemma transmission_loop_succeeds:
  "loc reqs st = Inr row \<Longrightarrow> length (index row) = 1 \<Longrightarrow> index acc = index beam \<Longrightarrow>
   \<forall>c\<in>set cs. (\<exists>m. getitem row c = Inr (Scalar m)) \<and> (\<exists>xs. column beam c = Inr xs) \<Longrightarrow>
   \<exists>res. transmission_loop reqs st beam cs acc = Inr res"
proof (induction cs arbitrary: acc)
  case Nil
  then show ?case by simp
next
  case (Cons c cs)
  from Cons.prems(4) obtain m xs where m: "getitem row c = Inr (Scalar m)"
    and xs: "column beam c = Inr xs" by auto
  let ?acc = "setitem acc c (map (\<lambda>x. fdiv m (fdiv x (Fin False 1000))) xs)"
  have "index ?acc = index beam" using Cons.prems(3) by (simp add: index_setitem)
  from Cons.IH [OF Cons.prems(1,2) this] Cons.prems(4) obtain res where
    "transmission_loop reqs st beam cs ?acc = Inr res" by auto
  with Cons.prems(1,2) m xs transmission_assign [OF Cons.prems(3), of c m xs "Fin False 1000"]
  show ?case by (simp add: item_def)
qed

lemma rate_loop_succeeds:
  "loc reqs st = Inr row \<Longrightarrow> length (index row) = 1 \<Longrightarrow> index acc = index beam \<Longrightarrow>
   index att = index beam \<Longrightarrow> getitem row ''Power'' = Inr (Scalar p) \<Longrightarrow>
   \<forall>c\<in>set cs. (\<exists>xs. column beam c = Inr xs) \<and> (\<exists>as. column att c = Inr as) \<Longrightarrow>
   \<exists>res. rate_loop reqs st beam att cs acc = Inr res"
proof (induction cs arbitrary: acc)
  case Nil
  then show ?case by simp
next
  case (Cons c cs)
  from Cons.prems(6) obtain xs as where xs: "column beam c = Inr xs"
    and as: "column att c = Inr as" by auto
  define vals where
    "vals = map (\<lambda>(x, a). fsub (fdiv (fdiv p (fdiv x (Fin False 1000000))) (Fin False 1)) a)
       (zip xs as)"
  from rate_assign [OF Cons.prems(3,4), of c p xs "Fin False 1000000" as] have
    v: "assign acc c
     (binop fsub
        (binop fdiv (binop fdiv (Number p)
            (binop fdiv (Series (index beam) xs) (Number (Fin False 1000000))))
           (Number (Fin False 1)))
        (Series (index att) as)) = Inr (setitem acc c vals)" by (simp add: vals_def)
  have "index (setitem acc c vals) = index beam" using Cons.prems(3) by (simp add: index_setitem)
  from Cons.IH [OF Cons.prems(1,2) this Cons.prems(4,5)] Cons.prems(6) obtain res where
    "rate_loop reqs st beam att cs (setitem acc c vals) = Inr res" by auto
  with Cons.prems(1,2,5) xs as v show ?case by (simp add: item_def)
qed

lemma transmission_loop_KeyError:
  "loc reqs st = Inr row \<Longrightarrow> length (index row) = 1 \<Longrightarrow> index acc = index beam \<Longrightarrow>
   \<forall>c\<in>set cs. c \<in> set (map fst (columns row)) \<longrightarrow> (\<exists>m. getitem row c = Inr (Scalar m)) \<Longrightarrow>
   \<forall>c\<in>set cs. \<exists>xs. column beam c = Inr xs \<Longrightarrow>
   \<exists>c\<in>set cs. c \<notin> set (map fst (columns row)) \<Longrightarrow>
   \<exists>c'. c' \<in> set cs \<and> c' \<notin> set (map fst (columns row)) \<and>
     transmission_loop reqs st beam cs acc = Inl (KeyError c')"
proof (induction cs arbitrary: acc)
  case Nil
  then show ?case by simp
next
  case (Cons c cs)
  show ?case
  proof (cases "c \<in> set (map fst (columns row))")
    case False
    then have "getitem row c = Inl (KeyError c)" by (rule getitem_missing)
    with Cons.prems(1) False show ?thesis by auto
  next
    case True
    with Cons.prems(4) obtain m where m: "getitem row c = Inr (Scalar m)" by auto
    from Cons.prems(5) obtain xs where xs: "column beam c = Inr xs" by auto
    let ?acc = "setitem acc c (map (\<lambda>x. fdiv m (fdiv x (Fin False 1000))) xs)"
    have i: "index ?acc = index beam" using Cons.prems(3) by (simp add: index_setitem)
    from True Cons.prems(6) have "\<exists>c\<in>set cs. c \<notin> set (map fst (columns row))" by auto
    with Cons.IH [OF Cons.prems(1,2) i] Cons.prems(4,5)
    obtain c' where "c' \<in> set cs" "c' \<notin> set (map fst (columns row))"
      "transmission_loop reqs st beam cs ?acc = Inl (KeyError c')"
      by auto
    with Cons.prems(1,2) m xs transmission_assign [OF Cons.prems(3), of c m xs "Fin False 1000"]
    show ?thesis by (auto simp: item_def)
  qed
qed

lemma calculate_succeeds:
  assumes "index reqs = st # rest" and "st \<notin> set rest" and "well_formed reqs"
      and "set (map fst (columns beam)) \<subseteq> set (map fst (columns reqs))"
      and "''Power'' \<in> set (map fst (columns reqs))"
  shows "\<exists>att rate. calculate reqs beam = Inr (att, rate)"
proof -
  let ?row = "\<lparr>index = [st], columns = first_row reqs\<rparr>"
  let ?cs = "map fst (columns beam)"
  have st: "state_name reqs = Inr st" using assms(1) by (simp add: state_name_def)
  have row: "loc reqs st = Inr ?row" using assms(1,2) by (rule loc_unique)
  have one: "length (index ?row) = 1" by simp
  have reg: "index beam \<noteq> [] \<or> length (index ?row) = 1" by simp
  have "\<forall>c\<in>set ?cs. (\<exists>m. getitem ?row c = Inr (Scalar m)) \<and> (\<exists>xs. column beam c = Inr xs)"
    using assms(4) getitem_first_row [OF assms(1,3)] key_column [of _ beam] by blast
  from transmission_loop_succeeds [OF row one index_zeros this] obtain t where
    t: "transmission_loop reqs st beam ?cs (zeros beam) = Inr t" by blast
  define att where "att = frame_map one_minus (frame_map round2 (frame_map clamp t))"
  have a: "min_attenuation reqs st beam = Inr att"
    by (simp add: min_attenuation_def t att_def)
  from transmission_loop_frame [OF row reg t index_zeros]
  have ia: "index att = index beam" and "map fst (columns att) = ?cs"
    by (simp_all add: att_def index_frame_map keys_frame_map keys_zeros)
  then have "\<forall>c\<in>set ?cs. (\<exists>xs. column beam c = Inr xs) \<and> (\<exists>as. column att c = Inr as)"
    using key_column [of _ beam] key_column [of _ att] by simp
  moreover from getitem_first_row [OF assms(1,3,5)] obtain p where
    "getitem ?row ''Power'' = Inr (Scalar p)" by blast
  ultimately obtain r where "rate_loop reqs st beam att ?cs (zeros beam) = Inr r"
    using rate_loop_succeeds [OF row one index_zeros ia] by blast
  then have "max_pulse_rate reqs st beam att = Inr (frame_map round0 r)"
    by (simp add: max_pulse_rate_def)
  with st a show ?thesis by (simp add: calculate_def)
qed

lemma calculate_KeyError:
  assumes "index reqs = st # rest" and "st \<notin> set rest" and "well_formed reqs"
      and "c \<in> set (map fst (columns beam))" and "c \<notin> set (map fst (columns reqs))"
  shows "\<exists>c'. c' \<in> set (map fst (columns beam)) \<and> c' \<notin> set (map fst (columns reqs)) \<and>
           calculate reqs beam = Inl (KeyError c')"
proof -
  let ?row = "\<lparr>index = [st], columns = first_row reqs\<rparr>"
  let ?cs = "map fst (columns beam)"
  have st: "state_name reqs = Inr st" using assms(1) by (simp add: state_name_def)
  have row: "loc reqs st = Inr ?row" using assms(1,2) by (rule loc_unique)
  have one: "length (index ?row) = 1" by simp
  have k: "map fst (columns ?row) = map fst (columns reqs)" by (simp add: keys_first_row)
  have 1: "\<forall>c\<in>set ?cs. c \<in> set (map fst (columns ?row)) \<longrightarrow>
      (\<exists>m. getitem ?row c = Inr (Scalar m))"
    using getitem_first_row [OF assms(1,3)] by (simp only: k) blast
  have 2: "\<forall>c\<in>set ?cs. \<exists>xs. column beam c = Inr xs"
    using key_column [of _ beam] by blast
  have 3: "\<exists>c\<in>set ?cs. c \<notin> set (map fst (columns ?row))"
    using assms(4,5) by (simp only: k) blast
  from transmission_loop_KeyError [OF row one index_zeros 1 2 3] obtain c' where
    "c' \<in> set ?cs" "c' \<notin> set (map fst (columns reqs))"
    "transmission_loop reqs st beam ?cs (zeros beam) = Inl (KeyError c')"
    by (auto simp only: k)
  with st show ?thesis
    by (auto simp: calculate_def min_attenuation_def)
qed

section \<open>The scenario of the specification, operation by operation\<close>

text \<open>The requirement row \<open>8.0: 10 mJ, Power: 5 W\<close> and the beam-power cell
  \<open>12000 \<mu>J\<close>. Every line is one binary64 operation of the notebook, evaluated.\<close>

lemma s_div_1000:
  "fdiv (Fin False 12000) (Fin False 1000) = Fin False 12"
  by code_simp

lemma s_transmission:
  "fdiv (Fin False 10) (Fin False 12) = Fin False (7505999378950827 / 9007199254740992)"
  by code_simp

lemma s_times_100:
  "fmul (Fin False (7505999378950827 / 9007199254740992)) (Fin False 100) = Fin False (2932031007402667 / 35184372088832)"
  by code_simp

lemma s_rint_100:
  "rint (Fin False (2932031007402667 / 35184372088832)) = Fin False 83"
  by code_simp

lemma s_over_100:
  "fdiv (Fin False 83) (Fin False 100) = Fin False (7475975381435023 / 9007199254740992)"
  by code_simp

lemma s_one_minus:
  "fsub (Fin False 1) (Fin False (7475975381435023 / 9007199254740992)) = Fin False (1531223873305969 / 9007199254740992)"
  by code_simp

lemma s_div_1000000:
  "fdiv (Fin False 12000) (Fin False 1000000) = Fin False (3458764513820541 / 288230376151711744)"
  by code_simp

lemma s_power_over:
  "fdiv (Fin False 5) (Fin False (3458764513820541 / 288230376151711744)) = Fin False (7330077518506667 / 17592186044416)"
  by code_simp

lemma s_over_1:
  "fdiv (Fin False (7330077518506667 / 17592186044416)) (Fin False 1) = Fin False (7330077518506667 / 17592186044416)"
  by code_simp

lemma s_minus_att:
  "fsub (Fin False (7330077518506667 / 17592186044416)) (Fin False (1531223873305969 / 9007199254740992)) = Fin False (1831771711719779 / 4398046511104)"
  by code_simp

lemma s_rint_rate:
  "rint (Fin False (1831771711719779 / 4398046511104)) = Fin False 416"
  by code_simp

lemma s_clamp:
  "clamp (Fin False (7505999378950827 / 9007199254740992)) =
     Fin False (7505999378950827 / 9007199254740992)"
  by (simp add: clamp_def val_def)

lemma s_min_attenuation_cell:
  "one_minus (round2 (clamp (fdiv (Fin False 10) (fdiv (Fin False 12000) (Fin False 1000)))))
     = Fin False (1531223873305969 / 9007199254740992)"
  by (simp only: s_div_1000 s_transmission s_clamp round2_def s_times_100 s_rint_100
        s_over_100 one_minus_def s_one_minus)

lemma s_max_rep_rate_cell:
  "round0 (rate_cell (Fin False 5) (Fin False 12000)
      (Fin False (1531223873305969 / 9007199254740992)))
     = Fin False 416"
  by (simp only: rate_cell_def round0_def s_div_1000000 s_power_over s_over_1 s_minus_att
        s_rint_rate)

section \<open>Rounding stays within bounds\<close>



lemma rhe_of_int: "rhe (of_int n) = n"
  by (simp add: rhe_def)


lemma rnd_zero: "rnd 0 = 0"
  by (simp add: rnd_def rhe_def)




lemma mk_zero: "mk s 0 = Fin s 0"
  by (simp add: mk_def rnd_zero)



section \<open>The attenuation of one cell\<close>







lemma spec_min_attenuation_eq:
  "spec_min_attenuation m e = one_minus (round2 (clamp (fdiv m (fdiv e (Fin False 1000)))))"
  by (simp add: spec_min_attenuation_def one_minus_def clamp_def Let_def)


lemma mk_100: "mk False 100 = Fin False 100"
  by code_simp

lemma mk_1: "mk False 1 = Fin False 1"
  by code_simp

lemma round2_one: "round2 (Fin False 1) = Fin False 1"
  using rhe_of_int [of 100] by (simp add: round2_def mk_100 mk_1)

lemma attenuation_zero_energy:
  assumes "is_f64 m" and "fgt m (Fin False 0)"
  shows "spec_min_attenuation m (Fin False 0) = Fin False 0"
proof -
  have "fdiv m (fdiv (Fin False 0) (Fin False 1000)) = Inf False"
    using assms by (cases m) (auto simp: mk_zero val_def split: if_splits)
  then show ?thesis
    by (simp add: spec_min_attenuation_eq clamp_def round2_one one_minus_def fsub_def val_def)
qed

section \<open>Runs on given tables\<close>

lemma scenario_12000:
  "calculate
     \<lparr>index = [''OPEN''], columns = [(''8.0'', [Fin False 10]), (''Power'', [Fin False 5])]\<rparr>
     \<lparr>index = [''100pC''], columns = [(''8.0'', [Fin False 12000])]\<rparr>
   = Inr (\<lparr>index = [''100pC''],
             columns = [(''8.0'', [Fin False (1531223873305969 / 9007199254740992)])]\<rparr>,
          \<lparr>index = [''100pC''], columns = [(''8.0'', [Fin False 416])]\<rparr>)"
  by (simp add: calculate_def state_name_def min_attenuation_def max_pulse_rate_def loc_def
        getitem_def item_def column_def setitem_def zeros_def frame_map_def
        s_min_attenuation_cell s_max_rep_rate_cell [unfolded rate_cell_def]
      del: fdiv.simps fmul.simps fadd.simps rint.simps)

lemma extra_requirement_column:
  "calculate
     \<lparr>index = [''OPEN''],
      columns = [(''8.0'', [Fin False 10]), (''9.0'', [Fin False 10]), (''Power'', [Fin False 5])]\<rparr>
     \<lparr>index = [''100pC''], columns = [(''8.0'', [Fin False 12000])]\<rparr>
   = Inr (\<lparr>index = [''100pC''],
             columns = [(''8.0'', [Fin False (1531223873305969 / 9007199254740992)])]\<rparr>,
          \<lparr>index = [''100pC''], columns = [(''8.0'', [Fin False 416])]\<rparr>)"
  by (simp add: calculate_def state_name_def min_attenuation_def max_pulse_rate_def loc_def
        getitem_def item_def column_def setitem_def zeros_def frame_map_def
        s_min_attenuation_cell s_max_rep_rate_cell [unfolded rate_cell_def]
      del: fdiv.simps fmul.simps fadd.simps rint.simps)

lemma repeated_label:
  "calculate
     \<lparr>index = [''OPEN'', ''OPEN''],
      columns = [(''8.0'', [Fin False 10, Fin False 20]), (''Power'', [Fin False 5, Fin False 6])]\<rparr>
     \<lparr>index = [''100pC''], columns = [(''8.0'', [Fin False 12000])]\<rparr>
   = Inl ValueError"
  by (simp add: calculate_def state_name_def min_attenuation_def loc_def getitem_def item_def
        column_def zeros_def)

lemma zero_energy:
  "calculate
     \<lparr>index = [''OPEN''], columns = [(''8.0'', [Fin False 10]), (''Power'', [Fin False 5])]\<rparr>
     \<lparr>index = [''100pC''], columns = [(''8.0'', [Fin False 0])]\<rparr>
   = Inr (\<lparr>index = [''100pC''], columns = [(''8.0'', [Fin False 0])]\<rparr>,
          \<lparr>index = [''100pC''], columns = [(''8.0'', [Inf False])]\<rparr>)"
  by (simp add: calculate_def state_name_def min_attenuation_def max_pulse_rate_def loc_def
        getitem_def item_def column_def setitem_def zeros_def frame_map_def mk_zero clamp_def
        round2_one one_minus_def fsub_def val_def round0_def)

lemma negative_zero_energy:
  "calculate
     \<lparr>index = [''OPEN''], columns = [(''8.0'', [Fin False 10]), (''Power'', [Fin False 5])]\<rparr>
     \<lparr>index = [''100pC''], columns = [(''8.0'', [Fin True 0])]\<rparr>
   = Inr (\<lparr>index = [''100pC''], columns = [(''8.0'', [Inf False])]\<rparr>,
          \<lparr>index = [''100pC''], columns = [(''8.0'', [Inf True])]\<rparr>)"
  by (simp add: calculate_def state_name_def min_attenuation_def max_pulse_rate_def loc_def
        getitem_def item_def column_def setitem_def zeros_def frame_map_def mk_zero clamp_def
        round2_def one_minus_def fsub_def val_def round0_def)


text \<open>A state name that labels two rows and a beam-power table without rows: the first
  column stored gives the table of the attenuations the two labels, and every cell
  is NaN.\<close>

lemma repeated_label_no_rows:
  "calculate
     \<lparr>index = [''OPEN'', ''OPEN''],
      columns = [(''8.0'', [Fin False 10, Fin False 20]), (''9.0'', [Fin False 10, Fin False 20]),
                 (''Power'', [Fin False 5, Fin False 6])]\<rparr>
     \<lparr>index = [], columns = [(''8.0'', []), (''9.0'', [])]\<rparr>
   = Inr (\<lparr>index = [''OPEN'', ''OPEN''],
             columns = [(''8.0'', [NaN, NaN]), (''9.0'', [NaN, NaN])]\<rparr>,
          \<lparr>index = [''OPEN'', ''OPEN''],
             columns = [(''8.0'', [NaN, NaN]), (''9.0'', [NaN, NaN])]\<rparr>)"
  by (simp add: calculate_def state_name_def min_attenuation_def max_pulse_rate_def loc_def
        getitem_def item_def column_def setitem_def zeros_def frame_map_def clamp_def
        round2_def one_minus_def fsub_def round0_def)

text \<open>A state name that labels two rows, and a beam-power table whose two rows carry
  that label too: the indexes are equal and every division goes row by row, each row
  with its own tolerance and its own power.\<close>

lemma r_power_over:
  "fdiv (Fin False 6) (Fin False (3458764513820541 / 288230376151711744)) = Fin False 500"
  by code_simp

lemma r_over_1: "fdiv (Fin False 500) (Fin False 1) = Fin False 500"
  by code_simp

lemma r_minus_att:
  "fsub (Fin False 500) (Fin False (1531223873305969 / 9007199254740992))
     = Fin False (8793102350580449 / 17592186044416)"
  by code_simp

lemma r_rint_rate: "rint (Fin False (8793102350580449 / 17592186044416)) = Fin False 500"
  by code_simp

lemma r_max_rep_rate_cell:
  "round0 (fsub (fdiv (fdiv (Fin False 6) (fdiv (Fin False 12000) (Fin False 1000000)))
       (Fin False 1)) (Fin False (1531223873305969 / 9007199254740992))) = Fin False 500"
  by (simp only: round0_def s_div_1000000 r_power_over r_over_1 r_minus_att r_rint_rate)

lemma r_transmission:
  "fdiv (Fin False 20) (Fin False 12) = Fin False (7505999378950827 / 4503599627370496)"
  by code_simp

lemma r_one_minus: "fsub (Fin False 1) (Fin False 1) = Fin False 0"
  by code_simp

lemma r_min_attenuation_cell:
  "one_minus (round2 (clamp (fdiv (Fin False 20) (fdiv (Fin False 12000) (Fin False 1000)))))
     = Fin False 0"
  by (simp add: s_div_1000 r_transmission clamp_def val_def round2_one one_minus_def r_one_minus
      del: fdiv.simps fmul.simps fadd.simps rint.simps)

lemma r_minus_zero:
  "fsub (Fin False (7330077518506667 / 17592186044416)) (Fin False 0)
     = Fin False (7330077518506667 / 17592186044416)"
  by code_simp

lemma r_rint_up: "rint (Fin False (7330077518506667 / 17592186044416)) = Fin False 417"
  by code_simp

lemma r_max_rep_rate_cell_zero:
  "round0 (fsub (fdiv (fdiv (Fin False 5) (fdiv (Fin False 12000) (Fin False 1000000)))
       (Fin False 1)) (Fin False 0)) = Fin False 417"
  by (simp only: round0_def s_div_1000000 s_power_over s_over_1 r_minus_zero r_rint_up)

lemma two_powers:
  "calculate
     \<lparr>index = [''OPEN'', ''OPEN''],
      columns = [(''8.0'', [Fin False 10, Fin False 10]), (''9.0'', [Fin False 10, Fin False 10]),
                 (''Power'', [Fin False 5, Fin False 6])]\<rparr>
     \<lparr>index = [''OPEN'', ''OPEN''],
      columns = [(''8.0'', [Fin False 12000, Fin False 12000]),
                 (''9.0'', [Fin False 12000, Fin False 12000])]\<rparr>
   = Inr (\<lparr>index = [''OPEN'', ''OPEN''],
             columns =
               [(''8.0'', [Fin False (1531223873305969 / 9007199254740992),
                           Fin False (1531223873305969 / 9007199254740992)]),
                (''9.0'', [Fin False (1531223873305969 / 9007199254740992),
                           Fin False (1531223873305969 / 9007199254740992)])]\<rparr>,
          \<lparr>index = [''OPEN'', ''OPEN''],
             columns = [(''8.0'', [Fin False 416, Fin False 500]),
                        (''9.0'', [Fin False 416, Fin False 500])]\<rparr>)"
  by (simp add: calculate_def state_name_def min_attenuation_def max_pulse_rate_def loc_def
        getitem_def item_def column_def setitem_def zeros_def frame_map_def
        s_min_attenuation_cell s_max_rep_rate_cell [unfolded rate_cell_def]
        r_max_rep_rate_cell
      del: fdiv.simps fmul.simps fadd.simps rint.simps)

lemma two_tolerances:
  "calculate
     \<lparr>index = [''OPEN'', ''OPEN''],
      columns = [(''8.0'', [Fin False 10, Fin False 20]), (''9.0'', [Fin False 10, Fin False 20]),
                 (''Power'', [Fin False 5, Fin False 5])]\<rparr>
     \<lparr>index = [''OPEN'', ''OPEN''],
      columns = [(''8.0'', [Fin False 12000, Fin False 12000]),
                 (''9.0'', [Fin False 12000, Fin False 12000])]\<rparr>
   = Inr (\<lparr>index = [''OPEN'', ''OPEN''],
             columns =
               [(''8.0'', [Fin False (1531223873305969 / 9007199254740992), Fin False 0]),
                (''9.0'', [Fin False (1531223873305969 / 9007199254740992), Fin False 0])]\<rparr>,
          \<lparr>index = [''OPEN'', ''OPEN''],
             columns = [(''8.0'', [Fin False 416, Fin False 417]),
                        (''9.0'', [Fin False 416, Fin False 417])]\<rparr>)"
  by (simp add: calculate_def state_name_def min_attenuation_def max_pulse_rate_def loc_def
        getitem_def item_def column_def setitem_def zeros_def frame_map_def
        s_min_attenuation_cell s_max_rep_rate_cell [unfolded rate_cell_def]
        r_min_attenuation_cell r_max_rep_rate_cell_zero
      del: fdiv.simps fmul.simps fadd.simps rint.simps)

lemma is_f64_10: "is_f64 (Fin False 10)"
  by code_simp


lemma is_f64_zero: "is_f64 (Fin s 0)"
  by (simp add: rnd_zero)

lemma requirement_scenario:
  "requirement
     \<lparr>index = [''OPEN''], columns = [(''8.0'', [Fin False 10]), (''Power'', [Fin False 5])]\<rparr>
     ''8.0'' = Inr (Scalar (Fin False 10))"
  by (simp add: requirement_def state_name_def loc_def getitem_def)

lemma power_scenario:
  "requirement
     \<lparr>index = [''OPEN''], columns = [(''8.0'', [Fin False 10]), (''Power'', [Fin False 5])]\<rparr>
     ''Power'' = Inr (Scalar (Fin False 5))"
  by (simp add: requirement_def state_name_def loc_def getitem_def)

section \<open>The claims\<close>

text \<open>
  C1, as the notebook computes it. For the requirement row \<open>8.0: 10 mJ, Power: 5 W\<close>
  and the beam-power cell \<open>12000 \<mu>J\<close> in column \<open>8.0\<close>, the allowed transmission
  \<open>10 / 12\<close> is rounded to the binary64 value of \<open>0.83\<close>, the minimum attenuation is
  \<open>1 - 0.83\<close> in binary64, which is \<open>1531223873305969 / 2\<^sup>5\<^sup>3\<close> and prints as
  \<open>0.17000000000000004\<close>, and the maximum repetition rate is \<open>416.4966...\<close> rounded to
  zero decimal places, which is \<open>416\<close>.
\<close>

theorem C1_scenario:
  "calculate
     \<lparr>index = [''OPEN''], columns = [(''8.0'', [Fin False 10]), (''Power'', [Fin False 5])]\<rparr>
     \<lparr>index = [''100pC''], columns = [(''8.0'', [Fin False 12000])]\<rparr>
   = Inr (\<lparr>index = [''100pC''],
             columns = [(''8.0'', [Fin False (1531223873305969 / 2 ^ 53)])]\<rparr>,
          \<lparr>index = [''100pC''], columns = [(''8.0'', [Fin False 416])]\<rparr>)"
  by (simp add: scenario_12000)

text \<open>C1 as the specification states it, with a maximum repetition rate of \<open>417\<close>, does
  not hold: the table of rates of that run is not the one with \<open>417\<close> in its cell.\<close>

theorem C1_counterexample:
  "map_sum id snd (calculate
     \<lparr>index = [''OPEN''], columns = [(''8.0'', [Fin False 10]), (''Power'', [Fin False 5])]\<rparr>
     \<lparr>index = [''100pC''], columns = [(''8.0'', [Fin False 12000])]\<rparr>)
   \<noteq> Inr \<lparr>index = [''100pC''], columns = [(''8.0'', [Fin False 417])]\<rparr>"
  by (simp add: scenario_12000)

text \<open>
  C8, as the notebook computes it. After a run that returns, both derived tables have
  the row labels of the beam-power table and its column labels in the same order, and
  every column of both has one cell for each row (the tables are well formed whenever
  the beam-power table is), provided the beam-power table has a row or the state name
  labels one row of the requirements.
\<close>

theorem C8_output_shape:
  assumes "calculate max_reqs max_pulse = Inr (att, rate)" and "well_formed max_pulse"
      and "index max_pulse \<noteq> [] \<or> (\<exists>st rest. index max_reqs = st # rest \<and> st \<notin> set rest)"
  shows "index att = index max_pulse \<and> index rate = index max_pulse \<and>
         map fst (columns att) = map fst (columns max_pulse) \<and>
         map fst (columns rate) = map fst (columns max_pulse) \<and>
         well_formed att \<and> well_formed rate"
proof -
  from calculate_InrD [OF assms(1)] obtain st where st: "state_name max_reqs = Inr st"
    by blast
  from loc_state_name [OF st] obtain row where row: "loc max_reqs st = Inr row"
    by blast
  have "index max_pulse \<noteq> [] \<or> length (index row) = 1"
  proof (cases "index max_pulse = []")
    case False
    then show ?thesis by simp
  next
    case True
    with assms(3) obtain st' rest where u: "index max_reqs = st' # rest" "st' \<notin> set rest"
      by blast
    from state_name_unique [OF u(1)] st have "st' = st" by simp
    with loc_unique [OF u] row show ?thesis by auto
  qed
  from calculate_shape [OF assms(1) st row this] assms(2) show ?thesis by simp
qed

theorem C8_witness:
  "calculate
     \<lparr>index = [''OPEN''], columns = [(''8.0'', [Fin False 10]), (''Power'', [Fin False 5])]\<rparr>
     \<lparr>index = [''100pC''], columns = [(''8.0'', [Fin False 12000])]\<rparr>
   = Inr (\<lparr>index = [''100pC''],
             columns = [(''8.0'', [Fin False (1531223873305969 / 9007199254740992)])]\<rparr>,
          \<lparr>index = [''100pC''], columns = [(''8.0'', [Fin False 416])]\<rparr>) \<and>
   well_formed \<lparr>index = [''100pC''], columns = [(''8.0'', [Fin False 12000])]\<rparr> \<and>
   index \<lparr>index = [''100pC''], columns = [(''8.0'', [Fin False 12000])]\<rparr> \<noteq> [] \<and>
   well_formed \<lparr>index = [''100pC''],
     columns = [(''8.0'', [Fin False (1531223873305969 / 9007199254740992)])]\<rparr> \<and>
   well_formed \<lparr>index = [''100pC''], columns = [(''8.0'', [Fin False 416])]\<rparr>"
  using C8_output_shape [OF scenario_12000] scenario_12000
  by (simp add: well_formed_def)

text \<open>C8 as the specification states it, for every run, does not hold. When the state
  name labels two rows of the requirements and the beam-power table has its columns
  and no row, the run returns, and both derived tables have two rows, labelled by the
  state name, that the beam-power table lacks.\<close>

theorem C8_counterexample:
  "well_formed \<lparr>index = ([] :: string list), columns = [(''8.0'', []), (''9.0'', [])]\<rparr> \<and>
   calculate
     \<lparr>index = [''OPEN'', ''OPEN''],
      columns = [(''8.0'', [Fin False 10, Fin False 20]), (''9.0'', [Fin False 10, Fin False 20]),
                 (''Power'', [Fin False 5, Fin False 6])]\<rparr>
     \<lparr>index = [], columns = [(''8.0'', []), (''9.0'', [])]\<rparr>
   = Inr (\<lparr>index = [''OPEN'', ''OPEN''],
             columns = [(''8.0'', [NaN, NaN]), (''9.0'', [NaN, NaN])]\<rparr>,
          \<lparr>index = [''OPEN'', ''OPEN''],
             columns = [(''8.0'', [NaN, NaN]), (''9.0'', [NaN, NaN])]\<rparr>) \<and>
   index \<lparr>index = [''OPEN'', ''OPEN''],
            columns = [(''8.0'', [NaN, NaN]), (''9.0'', [NaN, NaN])]\<rparr>
   \<noteq> index \<lparr>index = ([] :: string list), columns = [(''8.0'', []), (''9.0'', [])]\<rparr>"
  by (simp add: repeated_label_no_rows well_formed_def)

text \<open>
  C2, as the notebook computes it. When the state name labels one row of the
  requirements, the power of the state is one number, and in every run that returns
  each cell of a column of the maximum-repetition-rate table is the specification's
  formula at that power, the predicted pulse energy of the cell and the minimum
  attenuation already stored for the cell: the attenuation is subtracted from the
  quotient, and the difference is rounded.
\<close>

theorem C2_max_rep_rate_formula:
  assumes "index max_reqs = st # rest" and "st \<notin> set rest"
      and "calculate max_reqs max_pulse = Inr (att, rate)"
      and "column max_pulse e = Inr predicted"
  shows "\<exists>max_power as rs.
           requirement max_reqs ''Power'' = Inr (Scalar max_power) \<and>
           column att e = Inr as \<and> column rate e = Inr rs \<and>
           length as = length predicted \<and> length rs = length predicted \<and>
           (\<forall>b < length predicted.
              rs ! b = spec_max_rep_rate max_power (predicted ! b) (as ! b))"
proof -
  let ?row = "\<lparr>index = [st], columns = first_row max_reqs\<rparr>"
  have st: "state_name max_reqs = Inr st" using assms(1) by (rule state_name_unique)
  have row: "loc max_reqs st = Inr ?row" using assms(1,2) by (rule loc_unique)
  from calculate_cells [OF assms(3,4) st row] obtain m p where
    p: "getitem ?row ''Power'' = Inr (Scalar p)" and
    a: "column att e =
          Inr (map (\<lambda>x. one_minus (round2 (clamp (fdiv m (fdiv x (Fin False 1000)))))) predicted)" and
    r: "column rate e =
          Inr (map (\<lambda>(x, a). round0 (rate_cell p x a))
             (zip predicted (map (\<lambda>x. one_minus (round2 (clamp (fdiv m (fdiv x (Fin False 1000)))))) predicted)))"
    by auto
  let ?as = "map (\<lambda>x. one_minus (round2 (clamp (fdiv m (fdiv x (Fin False 1000)))))) predicted"
  let ?rs = "map (\<lambda>(x, a). round0 (rate_cell p x a)) (zip predicted ?as)"
  have "requirement max_reqs ''Power'' = Inr (Scalar p)"
    using st row p by (simp add: requirement_def)
  moreover have "\<forall>b < length predicted. ?rs ! b = spec_max_rep_rate p (predicted ! b) (?as ! b)"
    by (simp add: spec_max_rep_rate_def round0_def rate_cell_def)
  moreover have "length ?as = length predicted" "length ?rs = length predicted"
    by simp_all
  ultimately show ?thesis
    using a r by blast
qed

theorem C2_witness:
  "index \<lparr>index = [''OPEN''],
      columns = [(''8.0'', [Fin False 10]), (''Power'', [Fin False 5])]\<rparr> = ''OPEN'' # [] \<and>
   ''OPEN'' \<notin> set ([] :: string list) \<and>
   calculate
     \<lparr>index = [''OPEN''], columns = [(''8.0'', [Fin False 10]), (''Power'', [Fin False 5])]\<rparr>
     \<lparr>index = [''100pC''], columns = [(''8.0'', [Fin False 12000])]\<rparr>
   = Inr (\<lparr>index = [''100pC''],
             columns = [(''8.0'', [Fin False (1531223873305969 / 9007199254740992)])]\<rparr>,
          \<lparr>index = [''100pC''], columns = [(''8.0'', [Fin False 416])]\<rparr>) \<and>
   column \<lparr>index = [''100pC''], columns = [(''8.0'', [Fin False 12000])]\<rparr> ''8.0''
     = Inr [Fin False 12000] \<and>
   spec_max_rep_rate (Fin False 5) (Fin False 12000)
       (Fin False (1531223873305969 / 9007199254740992)) = Fin False 416"
  using C2_max_rep_rate_formula [of _ "''OPEN''" "[]", OF _ _ scenario_12000,
      of "''8.0''" "[Fin False 12000]"]
    scenario_12000 power_scenario
  by (simp add: column_def del: fdiv.simps fmul.simps fadd.simps rint.simps)

text \<open>C2 as the specification states it, for every cell with one power of the state,
  does not hold. When the state name labels two rows with the powers 5 and 6 and the two
  rows of the beam-power table carry that label too, the run returns and each row is
  computed with its own power: two cells with the same predicted pulse energy and the
  same minimum attenuation hold 416 and 500, which the formula gives for no one power.\<close>

theorem C2_counterexample:
  "calculate
     \<lparr>index = [''OPEN'', ''OPEN''],
      columns = [(''8.0'', [Fin False 10, Fin False 10]), (''9.0'', [Fin False 10, Fin False 10]),
                 (''Power'', [Fin False 5, Fin False 6])]\<rparr>
     \<lparr>index = [''OPEN'', ''OPEN''],
      columns = [(''8.0'', [Fin False 12000, Fin False 12000]),
                 (''9.0'', [Fin False 12000, Fin False 12000])]\<rparr>
   = Inr (\<lparr>index = [''OPEN'', ''OPEN''],
             columns =
               [(''8.0'', [Fin False (1531223873305969 / 9007199254740992),
                           Fin False (1531223873305969 / 9007199254740992)]),
                (''9.0'', [Fin False (1531223873305969 / 9007199254740992),
                           Fin False (1531223873305969 / 9007199254740992)])]\<rparr>,
          \<lparr>index = [''OPEN'', ''OPEN''],
             columns = [(''8.0'', [Fin False 416, Fin False 500]),
                        (''9.0'', [Fin False 416, Fin False 500])]\<rparr>) \<and>
   (\<nexists>max_power.
      Fin False 416 = spec_max_rep_rate max_power (Fin False 12000)
                        (Fin False (1531223873305969 / 9007199254740992)) \<and>
      Fin False 500 = spec_max_rep_rate max_power (Fin False 12000)
                        (Fin False (1531223873305969 / 9007199254740992)))"
proof -
  have "Fin False 416 \<noteq> Fin False 500" by simp
  then show ?thesis unfolding two_powers by metis
qed

text \<open>
  C3, as the notebook computes it. When the state name labels one row of the
  requirements, the tolerance of the state for a column is one number, and in every run
  that returns each cell of that column of the minimum-attenuation table is the
  specification's formula at that tolerance and the predicted pulse energy of the cell:
  transmission, clamp, rounding to two decimals, and only then the subtraction from 1.
\<close>

theorem C3_min_attenuation_formula:
  assumes "index max_reqs = st # rest" and "st \<notin> set rest"
      and "calculate max_reqs max_pulse = Inr (att, rate)"
      and "column max_pulse e = Inr predicted"
  shows "\<exists>max_pulse_energy as.
           requirement max_reqs e = Inr (Scalar max_pulse_energy) \<and>
           column att e = Inr as \<and> length as = length predicted \<and>
           (\<forall>b < length predicted.
              as ! b = spec_min_attenuation max_pulse_energy (predicted ! b))"
proof -
  let ?row = "\<lparr>index = [st], columns = first_row max_reqs\<rparr>"
  have st: "state_name max_reqs = Inr st" using assms(1) by (rule state_name_unique)
  have row: "loc max_reqs st = Inr ?row" using assms(1,2) by (rule loc_unique)
  from calculate_cells [OF assms(3,4) st row] obtain m where
    m: "getitem ?row e = Inr (Scalar m)" and
    a: "column att e =
          Inr (map (\<lambda>x. one_minus (round2 (clamp (fdiv m (fdiv x (Fin False 1000)))))) predicted)"
    by auto
  let ?as = "map (\<lambda>x. one_minus (round2 (clamp (fdiv m (fdiv x (Fin False 1000)))))) predicted"
  have "requirement max_reqs e = Inr (Scalar m)"
    using st row m by (simp add: requirement_def)
  moreover have "\<forall>b < length predicted. ?as ! b = spec_min_attenuation m (predicted ! b)"
    by (simp add: spec_min_attenuation_def one_minus_def clamp_def Let_def)
  moreover have "length ?as = length predicted"
    by simp
  ultimately show ?thesis
    using a by blast
qed

theorem C3_witness:
  "index \<lparr>index = [''OPEN''],
      columns = [(''8.0'', [Fin False 10]), (''Power'', [Fin False 5])]\<rparr> = ''OPEN'' # [] \<and>
   ''OPEN'' \<notin> set ([] :: string list) \<and>
   calculate
     \<lparr>index = [''OPEN''], columns = [(''8.0'', [Fin False 10]), (''Power'', [Fin False 5])]\<rparr>
     \<lparr>index = [''100pC''], columns = [(''8.0'', [Fin False 12000])]\<rparr>
   = Inr (\<lparr>index = [''100pC''],
             columns = [(''8.0'', [Fin False (1531223873305969 / 9007199254740992)])]\<rparr>,
          \<lparr>index = [''100pC''], columns = [(''8.0'', [Fin False 416])]\<rparr>) \<and>
   column \<lparr>index = [''100pC''], columns = [(''8.0'', [Fin False 12000])]\<rparr> ''8.0''
     = Inr [Fin False 12000] \<and>
   spec_min_attenuation (Fin False 10) (Fin False 12000)
     = Fin False (1531223873305969 / 9007199254740992)"
  using C3_min_attenuation_formula [of _ "''OPEN''" "[]", OF _ _ scenario_12000,
      of "''8.0''" "[Fin False 12000]"]
    scenario_12000 requirement_scenario
  by (simp add: column_def del: fdiv.simps fmul.simps fadd.simps rint.simps)

text \<open>C3 as the specification states it, for every cell with one tolerance of the
  state, does not hold. When the state name labels two rows with the tolerances 10 and 20
  and the two rows of the beam-power table carry that label too, the run returns and
  each row is computed with its own tolerance: two cells with the same predicted pulse
  energy hold different attenuations, which the formula gives for no one tolerance.\<close>

theorem C3_counterexample:
  "calculate
     \<lparr>index = [''OPEN'', ''OPEN''],
      columns = [(''8.0'', [Fin False 10, Fin False 20]), (''9.0'', [Fin False 10, Fin False 20]),
                 (''Power'', [Fin False 5, Fin False 5])]\<rparr>
     \<lparr>index = [''OPEN'', ''OPEN''],
      columns = [(''8.0'', [Fin False 12000, Fin False 12000]),
                 (''9.0'', [Fin False 12000, Fin False 12000])]\<rparr>
   = Inr (\<lparr>index = [''OPEN'', ''OPEN''],
             columns =
               [(''8.0'', [Fin False (1531223873305969 / 9007199254740992), Fin False 0]),
                (''9.0'', [Fin False (1531223873305969 / 9007199254740992), Fin False 0])]\<rparr>,
          \<lparr>index = [''OPEN'', ''OPEN''],
             columns = [(''8.0'', [Fin False 416, Fin False 417]),
                        (''9.0'', [Fin False 416, Fin False 417])]\<rparr>) \<and>
   (\<nexists>max_pulse_energy.
      Fin False (1531223873305969 / 9007199254740992)
        = spec_min_attenuation max_pulse_energy (Fin False 12000) \<and>
      Fin False 0 = spec_min_attenuation max_pulse_energy (Fin False 12000))"
proof -
  have "Fin False (1531223873305969 / 9007199254740992) \<noteq> Fin False 0" by simp
  then show ?thesis unfolding two_tolerances by metis
qed

text \<open>
  C10, as the notebook computes it. The state name is the label of the first row and
  the tolerances are looked up by that label. For two requirements tables whose first
  rows agree (same label, same columns, same values) and in which no later row repeats
  that label, the calculation ends the same way, whatever the other rows hold.
\<close>

theorem C10_first_row_only:
  assumes "index reqs1 = st # rest1" and "st \<notin> set rest1"
      and "index reqs2 = st # rest2" and "st \<notin> set rest2"
      and "first_row reqs1 = first_row reqs2"
  shows "calculate reqs1 max_pulse = calculate reqs2 max_pulse"
proof (rule calculate_cong)
  from assms(1,3) show "state_name reqs1 = state_name reqs2"
    by (simp add: state_name_def)
next
  fix st' assume "state_name reqs1 = Inr st'"
  with assms(1) have "st' = st" by (simp add: state_name_def)
  with loc_unique [OF assms(1,2)] loc_unique [OF assms(3,4)] assms(5)
  show "loc reqs1 st' = loc reqs2 st'" by simp
qed

theorem C10_witness:
  "index \<lparr>index = [''OPEN''],
      columns = [(''8.0'', [Fin False 10]), (''Power'', [Fin False 5])]\<rparr> = ''OPEN'' # [] \<and>
   ''OPEN'' \<notin> set ([] :: string list) \<and>
   index \<lparr>index = [''OPEN'', ''SHUT''],
      columns = [(''8.0'', [Fin False 10, Fin False 20]), (''Power'', [Fin False 5, Fin False 6])]\<rparr>
     = ''OPEN'' # [''SHUT''] \<and>
   ''OPEN'' \<notin> set [''SHUT''] \<and>
   calculate
     \<lparr>index = [''OPEN'', ''SHUT''],
      columns = [(''8.0'', [Fin False 10, Fin False 20]), (''Power'', [Fin False 5, Fin False 6])]\<rparr>
     \<lparr>index = [''100pC''], columns = [(''8.0'', [Fin False 12000])]\<rparr>
   = Inr (\<lparr>index = [''100pC''],
             columns = [(''8.0'', [Fin False (1531223873305969 / 9007199254740992)])]\<rparr>,
          \<lparr>index = [''100pC''], columns = [(''8.0'', [Fin False 416])]\<rparr>)"
  using C10_first_row_only [of
      "\<lparr>index = [''OPEN''], columns = [(''8.0'', [Fin False 10]), (''Power'', [Fin False 5])]\<rparr>"
      "''OPEN''" "[]"
      "\<lparr>index = [''OPEN'', ''SHUT''],
        columns = [(''8.0'', [Fin False 10, Fin False 20]), (''Power'', [Fin False 5, Fin False 6])]\<rparr>"
      "[''SHUT'']"
      "\<lparr>index = [''100pC''], columns = [(''8.0'', [Fin False 12000])]\<rparr>"]
    scenario_12000
  by (simp add: first_row_def)

text \<open>C10 as the specification states it does not hold: a second row that repeats the
  label of the first makes the lookup return several rows, and the run that returned
  with the first row alone ends in \<^verbatim>\<open>ValueError\<close>.\<close>

theorem C10_counterexample:
  "first_row \<lparr>index = [''OPEN''],
      columns = [(''8.0'', [Fin False 10]), (''Power'', [Fin False 5])]\<rparr>
   = first_row \<lparr>index = [''OPEN'', ''OPEN''],
      columns = [(''8.0'', [Fin False 10, Fin False 20]), (''Power'', [Fin False 5, Fin False 6])]\<rparr> \<and>
   calculate
     \<lparr>index = [''OPEN''], columns = [(''8.0'', [Fin False 10]), (''Power'', [Fin False 5])]\<rparr>
     \<lparr>index = [''100pC''], columns = [(''8.0'', [Fin False 12000])]\<rparr>
   \<noteq> calculate
     \<lparr>index = [''OPEN'', ''OPEN''],
      columns = [(''8.0'', [Fin False 10, Fin False 20]), (''Power'', [Fin False 5, Fin False 6])]\<rparr>
     \<lparr>index = [''100pC''], columns = [(''8.0'', [Fin False 12000])]\<rparr>"
  by (simp add: scenario_12000 repeated_label first_row_def)

section \<open>Rounded cells\<close>

lemma is_integer_rint: "is_integer (rint x) \<or> rint x = Inf False \<or> rint x = Inf True \<or> rint x = NaN"
  by (cases x) auto

text \<open>
  C7, as the notebook computes it. In every run that returns, each cell of the
  maximum-repetition-rate table is an integer-valued float, or an infinity, or NaN:
  rounding leaves the infinities and NaN as they are.
\<close>

theorem C7_rate_cells:
  assumes "calculate max_reqs max_pulse = Inr (att, rate)"
      and "(e, rs) \<in> set (columns rate)" and "r \<in> set rs"
  shows "is_integer r \<or> r = Inf False \<or> r = Inf True \<or> r = NaN"
proof -
  from calculate_InrD [OF assms(1)] obtain t where "rate = frame_map round0 t"
    by blast
  with assms(2) obtain ys where "rs = map round0 ys"
    by (auto simp: frame_map_def)
  with assms(3) obtain y where "r = rint y"
    by (auto simp: round0_def)
  with is_integer_rint [of y] show ?thesis by simp
qed

theorem C7_witness:
  "calculate
     \<lparr>index = [''OPEN''], columns = [(''8.0'', [Fin False 10]), (''Power'', [Fin False 5])]\<rparr>
     \<lparr>index = [''100pC''], columns = [(''8.0'', [Fin False 12000])]\<rparr>
   = Inr (\<lparr>index = [''100pC''],
             columns = [(''8.0'', [Fin False (1531223873305969 / 9007199254740992)])]\<rparr>,
          \<lparr>index = [''100pC''], columns = [(''8.0'', [Fin False 416])]\<rparr>) \<and>
   (''8.0'', [Fin False 416]) \<in> set (columns \<lparr>index = [''100pC''], columns = [(''8.0'', [Fin False 416])]\<rparr>) \<and>
   Fin False 416 \<in> set [Fin False 416] \<and> is_integer (Fin False 416)"
  using C7_rate_cells [OF scenario_12000, of "''8.0''" "[Fin False 416]" "Fin False 416"]
    scenario_12000
  by simp

text \<open>C7 as the specification states it, for all cells and also those of a zero
  predicted pulse energy, does not hold: with the power 5 and the tolerance 10 the
  quotient of the power over a zero energy is the positive infinity, rounding leaves
  it, and an infinity is not integer-valued.\<close>

theorem C7_counterexample:
  "calculate
     \<lparr>index = [''OPEN''], columns = [(''8.0'', [Fin False 10]), (''Power'', [Fin False 5])]\<rparr>
     \<lparr>index = [''100pC''], columns = [(''8.0'', [Fin False 0])]\<rparr>
   = Inr (\<lparr>index = [''100pC''], columns = [(''8.0'', [Fin False 0])]\<rparr>,
          \<lparr>index = [''100pC''], columns = [(''8.0'', [Inf False])]\<rparr>) \<and>
   \<not> is_integer (Inf False)"
  by (simp add: zero_energy)

section \<open>Runs on a zero predicted pulse energy\<close>

text \<open>
  C4, as the notebook computes it. When the labels of the two tables let the run go
  through (the state name labels one row, and the requirements have every column of the
  beam-power table and the column \<open>Power\<close>), a cell whose predicted pulse energy is the
  positive zero, under a positive tolerance, does not make the run raise, and the
  minimum attenuation of the cell is 0: the quotient is the positive infinity, clamped
  to 1.
\<close>

theorem C4_zero_energy:
  assumes "index max_reqs = st # rest" and "st \<notin> set rest" and "well_formed max_reqs"
      and "set (map fst (columns max_pulse)) \<subseteq> set (map fst (columns max_reqs))"
      and "''Power'' \<in> set (map fst (columns max_reqs))"
      and "column max_pulse e = Inr predicted" and "b < length predicted"
      and "predicted ! b = Fin False 0"
      and "requirement max_reqs e = Inr (Scalar m)" and "is_f64 m" and "fgt m (Fin False 0)"
  shows "\<exists>att rate as. calculate max_reqs max_pulse = Inr (att, rate) \<and>
           column att e = Inr as \<and> b < length as \<and> as ! b = Fin False 0"
proof -
  let ?row = "\<lparr>index = [st], columns = first_row max_reqs\<rparr>"
  have st: "state_name max_reqs = Inr st" using assms(1) by (rule state_name_unique)
  have row: "loc max_reqs st = Inr ?row" using assms(1,2) by (rule loc_unique)
  from assms(9) st row have g: "getitem ?row e = Inr (Scalar m)"
    by (simp add: requirement_def)
  from calculate_succeeds [OF assms(1-5)] obtain att rate where
    c: "calculate max_reqs max_pulse = Inr (att, rate)" by blast
  let ?as = "map (\<lambda>x. one_minus (round2 (clamp (fdiv m (fdiv x (Fin False 1000)))))) predicted"
  from calculate_cells [OF c assms(6) st row] g have a: "column att e = Inr ?as"
    by auto
  have "?as ! b = spec_min_attenuation m (Fin False 0)"
    using assms(7,8) by (simp add: spec_min_attenuation_eq)
  also have "\<dots> = Fin False 0"
    using assms(10,11) by (rule attenuation_zero_energy)
  finally have "?as ! b = Fin False 0" .
  moreover have "b < length ?as" using assms(7) by simp
  ultimately show ?thesis using c a by blast
qed

theorem C4_witness:
  "index \<lparr>index = [''OPEN''],
      columns = [(''8.0'', [Fin False 10]), (''Power'', [Fin False 5])]\<rparr> = ''OPEN'' # [] \<and>
   well_formed \<lparr>index = [''OPEN''],
      columns = [(''8.0'', [Fin False 10]), (''Power'', [Fin False 5])]\<rparr> \<and>
   column \<lparr>index = [''100pC''], columns = [(''8.0'', [Fin False 0])]\<rparr> ''8.0''
     = Inr [Fin False 0] \<and>
   requirement \<lparr>index = [''OPEN''],
      columns = [(''8.0'', [Fin False 10]), (''Power'', [Fin False 5])]\<rparr> ''8.0''
     = Inr (Scalar (Fin False 10)) \<and>
   is_f64 (Fin False 10) \<and> fgt (Fin False 10) (Fin False 0) \<and>
   (\<exists>att rate as.
      calculate
        \<lparr>index = [''OPEN''], columns = [(''8.0'', [Fin False 10]), (''Power'', [Fin False 5])]\<rparr>
        \<lparr>index = [''100pC''], columns = [(''8.0'', [Fin False 0])]\<rparr> = Inr (att, rate) \<and>
      column att ''8.0'' = Inr as \<and> 0 < length as \<and> as ! 0 = Fin False 0)"
  using C4_zero_energy [of
      "\<lparr>index = [''OPEN''], columns = [(''8.0'', [Fin False 10]), (''Power'', [Fin False 5])]\<rparr>"
      "''OPEN''" "[]"
      "\<lparr>index = [''100pC''], columns = [(''8.0'', [Fin False 0])]\<rparr>"
      "''8.0''" "[Fin False 0]" 0 "Fin False 10"]
    requirement_scenario is_f64_10
  by (simp add: well_formed_def column_def val_def del: is_f64.simps)

text \<open>C4 as the specification states it, for every zero, does not hold: the negative
  zero is zero too, the quotient of a positive tolerance over it is the negative
  infinity, which the clamp leaves, and the minimum attenuation is the positive
  infinity.\<close>

theorem C4_counterexample:
  "fgt (Fin False 10) (Fin False 0) \<and>
   \<not> fgt (Fin True 0) (Fin False 0) \<and> \<not> fgt (Fin False 0) (Fin True 0) \<and>
   calculate
     \<lparr>index = [''OPEN''], columns = [(''8.0'', [Fin False 10]), (''Power'', [Fin False 5])]\<rparr>
     \<lparr>index = [''100pC''], columns = [(''8.0'', [Fin True 0])]\<rparr>
   = Inr (\<lparr>index = [''100pC''], columns = [(''8.0'', [Inf False])]\<rparr>,
          \<lparr>index = [''100pC''], columns = [(''8.0'', [Inf True])]\<rparr>) \<and>
   Inf False \<noteq> Fin False 0"
  by (simp add: negative_zero_energy val_def)

section \<open>Columns that one table has and the other lacks\<close>

text \<open>
  C5, as the notebook computes it. The state name labels one row of a well-formed
  requirements table whose columns are \<open>Power\<close> and columns labelled by decimal
  numerals, so that the plot of the requirements is drawn and the calculation is
  reached. When the beam-power table has a photon-energy column that the requirements
  lack, the calculation ends in \<^verbatim>\<open>KeyError\<close> on such a column and returns no table.
\<close>

theorem C5_missing_requirement_column:
  assumes "index max_reqs = st # rest" and "st \<notin> set rest" and "well_formed max_reqs"
      and "''Power'' \<in> set (map fst (columns max_reqs))"
      and "\<forall>c \<in> set (map fst (columns max_reqs)). c \<noteq> ''Power'' \<longrightarrow> decimal_label c"
      and "e \<in> set (map fst (columns max_pulse))"
      and "e \<notin> set (map fst (columns max_reqs))"
  shows "\<exists>e'. e' \<in> set (map fst (columns max_pulse)) \<and>
           e' \<notin> set (map fst (columns max_reqs)) \<and>
           calculate max_reqs max_pulse = Inl (KeyError e')"
  using calculate_KeyError [OF assms(1-3,6,7)] by blast

theorem C5_witness:
  "index \<lparr>index = [''OPEN''],
      columns = [(''8.0'', [Fin False 10]), (''Power'', [Fin False 5])]\<rparr> = ''OPEN'' # [] \<and>
   well_formed \<lparr>index = [''OPEN''],
      columns = [(''8.0'', [Fin False 10]), (''Power'', [Fin False 5])]\<rparr> \<and>
   decimal_label ''8.0'' \<and>
   ''9.0'' \<in> set (map fst (columns
      \<lparr>index = [''100pC''], columns = [(''9.0'', [Fin False 12000])]\<rparr>)) \<and>
   ''9.0'' \<notin> set (map fst (columns \<lparr>index = [''OPEN''],
      columns = [(''8.0'', [Fin False 10]), (''Power'', [Fin False 5])]\<rparr>)) \<and>
   calculate
     \<lparr>index = [''OPEN''], columns = [(''8.0'', [Fin False 10]), (''Power'', [Fin False 5])]\<rparr>
     \<lparr>index = [''100pC''], columns = [(''9.0'', [Fin False 12000])]\<rparr>
   = Inl (KeyError ''9.0'')"
  using C5_missing_requirement_column [of
      "\<lparr>index = [''OPEN''], columns = [(''8.0'', [Fin False 10]), (''Power'', [Fin False 5])]\<rparr>"
      "''OPEN''" "[]" "''9.0''"
      "\<lparr>index = [''100pC''], columns = [(''9.0'', [Fin False 12000])]\<rparr>"]
  by (simp add: well_formed_def decimal_label_def digit_def)

text \<open>C5 as the specification states it, in both directions, does not hold: with a
  column \<open>9.0\<close> in the requirements and none in the beam-power table the calculation
  returns both tables.\<close>

theorem C5_counterexample:
  "''9.0'' \<in> set (map fst (columns \<lparr>index = [''OPEN''],
      columns = [(''8.0'', [Fin False 10]), (''9.0'', [Fin False 10]), (''Power'', [Fin False 5])]\<rparr>)) \<and>
   ''9.0'' \<notin> set (map fst (columns
      \<lparr>index = [''100pC''], columns = [(''8.0'', [Fin False 12000])]\<rparr>)) \<and>
   calculate
     \<lparr>index = [''OPEN''],
      columns = [(''8.0'', [Fin False 10]), (''9.0'', [Fin False 10]), (''Power'', [Fin False 5])]\<rparr>
     \<lparr>index = [''100pC''], columns = [(''8.0'', [Fin False 12000])]\<rparr>
   = Inr (\<lparr>index = [''100pC''],
             columns = [(''8.0'', [Fin False (1531223873305969 / 9007199254740992)])]\<rparr>,
          \<lparr>index = [''100pC''], columns = [(''8.0'', [Fin False 416])]\<rparr>)"
  by (simp add: extra_requirement_column)

section \<open>The range of the attenuation\<close>




section \<open>A second run in the same kernel\<close>

lemma run_cells_calculate:
  "run_cells req_file beam_csv k =
     map_sum id
       (\<lambda>(att, rate). \<lparr>var_max_reqs = req_file, var_max_pulse = beam_csv,
          var_state_name = (case state_name req_file of Inr st \<Rightarrow> st | Inl e \<Rightarrow> var_state_name k),
          var_min_attenuation = att, var_max_pulse_rate = rate\<rparr>)
       (calculate req_file beam_csv)"
  by (simp add: run_cells_def load_cell_def create_cell_def required_attenuation_cell_def
        maximum_repetition_rate_cell_def calculate_def min_attenuation_def max_pulse_rate_def
        Let_def split: sum.splits)

text \<open>
  C9. The cells of the calculation read no variable that the same run has not bound
  before: the cell that loads the files binds the two tables and the state name, the
  next one creates both derived tables anew. So whatever the five variables hold when
  a run starts, the run on given files ends the same way, with the same exception or
  with the same five values. In particular a second run, started in the kernel that
  the first one left, ends as the first did.
\<close>

theorem C9_rerun:
  "run_cells req_file beam_csv k = run_cells req_file beam_csv k'"
proof (cases "state_name req_file")
  case (Inl e)
  then show ?thesis by (simp add: run_cells_def load_cell_def Let_def)
next
  case (Inr st)
  then show ?thesis by (simp add: run_cells_calculate)
qed

end
